theory Spec2Isabelle
  imports Complex_Main "HOL-Library.Multiset"
begin

section \<open>Values, errors and rendering\<close>

text \<open>
  Exceptions of the Python source are values.  Numbers that the source holds as binary
  floating point are modelled by the real numbers they denote.  In the definitions that
  follow sums and quotients are exact; the section on doubles repeats the arithmetic of
  the aggregator with every result rounded.  \<open>NaN\<close> is what \<open>np.mean\<close> returns on an empty
  array.
\<close>

datatype error = ZeroDivisionError | NotImplementedError string | ValueError | TypeError

datatype pyfloat = Num real | NaN

datatype pyval = PNone | PBool bool | PInt int | PStr string

text \<open>Decimal rendering of integers, as an f-string prints them.\<close>

fun str_nat :: "nat \<Rightarrow> string" where
  "str_nat n = (if n < 10 then [''0123456789'' ! n]
                else str_nat (n div 10) @ [''0123456789'' ! (n mod 10)])"

declare str_nat.simps [simp del]

definition str_int :: "int \<Rightarrow> string" where
  "str_int i = (if i < 0 then ''-'' @ str_nat (nat (- i)) else str_nat (nat i))"

fun py_str :: "pyval \<Rightarrow> string" where
  "py_str PNone = ''None''"
| "py_str (PBool b) = (if b then ''True'' else ''False'')"
| "py_str (PInt i) = str_int i"
| "py_str (PStr s) = s"

text \<open>\<open>np.mean\<close> of a list of samples; \<open>+=\<close> on floats; \<open>/\<close> of a float by a counter.\<close>

fun np_mean :: "real list \<Rightarrow> pyfloat" where
  "np_mean [] = NaN"
| "np_mean (v # vs) = Num (sum_list (v # vs) / real (length (v # vs)))"

fun fadd :: "pyfloat \<Rightarrow> pyfloat \<Rightarrow> pyfloat" where
  "fadd (Num a) (Num b) = Num (a + b)"
| "fadd _ _ = NaN"

fun py_div :: "pyfloat \<Rightarrow> nat \<Rightarrow> error + pyfloat" where
  "py_div a 0 = Inl ZeroDivisionError"
| "py_div (Num a) (Suc n) = Inr (Num (a / real (Suc n)))"
| "py_div NaN (Suc n) = Inr NaN"

section \<open>Metric records and the tracked run\<close>

text \<open>One parsed metric file (the keys \<open>type\<close>, \<open>metric-name\<close>, \<open>x-values\<close>,
  \<open>y-values\<close>, \<open>x-axis\<close>, \<open>y-axis\<close>).  A document holds all six keys; the
  independent-variable values are integers (network sizes) and the samples are numbers, so
  that \<open>float(y)\<close> is the identity.\<close>

record metric =
  mtype :: string
  metric_name :: string
  x_values :: "int list"
  y_values :: "real list"
  x_axis :: string
  y_axis :: string

text \<open>What a tracked run receives: \<open>log\<close> calls with their commit flag, the line-series
  chart, the log-file table and the artifact upload.\<close>

datatype log_entry =
    Scalar string pyfloat bool
  | LineSeries string "int list" "pyfloat list" string string string
  | Table string "string list"
  | Artifact string string

record run =
  run_id :: string
  run_group :: string
  run_config :: "(string \<times> pyval) list"

text \<open>The state the parsing routines act on: the function attribute
  \<open>network_size.metrics_storage\<close> (absent and empty coincide), the calls made on the
  tracked run, and the lines printed.\<close>

record world =
  metrics_storage :: "string \<rightharpoonup> metric list"
  wb_log :: "log_entry list"
  stdout :: "string list"

section \<open>The aggregator \<open>network_size\<close>\<close>

text \<open>\<open>metrics_aggregate\<close> is a dict iterated in insertion order: an association list whose
  keys appear in the order in which they were first inserted.\<close>

fun agg_append :: "int \<Rightarrow> real \<Rightarrow> (int \<times> real list) list \<Rightarrow> (int \<times> real list) list" where
  "agg_append x y [] = [(x, [y])]"
| "agg_append x y ((k, v) # kvs) =
     (if k = x then (k, v @ [y]) # kvs else (k, v) # agg_append x y kvs)"

definition collect_samples :: "metric list \<Rightarrow> (int \<times> real list) list" where
  "collect_samples metrics_list =
     foldl (\<lambda>agg m. foldl (\<lambda>a (x, y). agg_append x y a) agg (zip (x_values m) (y_values m)))
       [] metrics_list"

definition reduce_means :: "(int \<times> real list) list \<Rightarrow> (int \<times> pyfloat) list" where
  "reduce_means agg = map (\<lambda>(k, v). (k, np_mean v)) agg"

text \<open>The loop over the reduced dict: one uncommitted scalar per key, the running sum and
  counter \<open>avg_across_size\<close>, and the two lists kept for the chart.\<close>

definition log_mean ::
  "string \<Rightarrow> log_entry list \<times> pyfloat \<times> nat \<times> int list \<times> pyfloat list \<Rightarrow> int \<times> pyfloat
   \<Rightarrow> log_entry list \<times> pyfloat \<times> nat \<times> int list \<times> pyfloat list" where
  "log_mean name st xy =
     (case st of (lg, acc, cnt, xs, ys) \<Rightarrow>
      case xy of (x, y) \<Rightarrow>
        (lg @ [Scalar (name @ ''_at_'' @ str_int x) y False],
         fadd acc y, cnt + 1, xs @ [x], ys @ [y]))"

definition log_means ::
  "string \<Rightarrow> log_entry list \<Rightarrow> (int \<times> pyfloat) list
   \<Rightarrow> log_entry list \<times> pyfloat \<times> nat \<times> int list \<times> pyfloat list" where
  "log_means name lg agg = foldl (log_mean name) (lg, Num 0, 0, [], []) agg"

text \<open>The second half of \<open>network_size\<close> (from \<open>metrics_aggregate = {}\<close> on), run on the
  list taken out of the storage: aggregation, the scalars, the unguarded division, the
  committed average and the optional chart.\<close>

definition aggregate_and_log ::
  "run \<Rightarrow> world \<Rightarrow> metric \<Rightarrow> (string \<rightharpoonup> pyval) \<Rightarrow> metric list \<Rightarrow> world \<times> error option" where
  "aggregate_and_log wandb_run w metrics method_args metrics_list =
     (let name = metric_name metrics;
          agg = reduce_means (collect_samples metrics_list)
      in case log_means name (wb_log w) agg of
           (lg, acc, cnt, xs, ys) \<Rightarrow>
             (case py_div acc cnt of
                Inl e \<Rightarrow> (w\<lparr>wb_log := lg\<rparr>, Some e)
              | Inr metrics_avg \<Rightarrow>
                  (if method_args ''lineseries'' = Some (PBool True)
                   then (w\<lparr>wb_log := lg @ [Scalar (name @ ''_avg'') metrics_avg True] @
                            [LineSeries (name @ ''_series'') xs ys (run_group wandb_run)
                               (y_axis metrics) (x_axis metrics)]\<rparr>, None)
                   else (w\<lparr>wb_log := lg @ [Scalar (name @ ''_avg'') metrics_avg True]\<rparr>, None))))"

text \<open>The first half: append to the storage, return unless \<open>last_file\<close>, otherwise take the
  list for the name out of the storage and delete its entry.\<close>

definition network_size ::
  "run \<Rightarrow> world \<Rightarrow> metric \<Rightarrow> (string \<rightharpoonup> pyval) \<Rightarrow> bool \<Rightarrow> world \<times> error option" where
  "network_size wandb_run w metrics method_args last_file =
     (let name = metric_name metrics;
          st0 = metrics_storage w;
          st1 = st0(name \<mapsto> (case st0 name of None \<Rightarrow> [] | Some l \<Rightarrow> l) @ [metrics]);
          w1 = w\<lparr>metrics_storage := st1\<rparr>
      in if \<not> last_file then (w1, None)
         else
           case st1 name of
             None \<Rightarrow> (w1, None)
           | Some metrics_list \<Rightarrow>
               aggregate_and_log wandb_run (w1\<lparr>metrics_storage := st1(name := None)\<rparr>)
                 metrics method_args metrics_list)"

section \<open>The default metrics parser\<close>

text \<open>A directory listing as \<open>listdir\<close> returns it: the name of each entry, whether it is a
  regular file, and the document \<open>yaml.load\<close> yields for it.\<close>

record entry =
  fname :: string
  regular :: bool
  parsed :: metric

definition join :: "string \<Rightarrow> string \<Rightarrow> string" where
  "join a b =
     (if (case b of [] \<Rightarrow> False | c # _ \<Rightarrow> c = CHR ''/'') then b
      else if a = [] \<or> last a = CHR ''/'' then a @ b
      else a @ ''/'' @ b)"

definition endswith :: "string \<Rightarrow> string \<Rightarrow> bool" where
  "endswith s suf = (length suf \<le> length s \<and> drop (length s - length suf) s = suf)"

datatype metric_handler = NetworkSize

definition metric_type_handling :: "string \<rightharpoonup> metric_handler" where
  "metric_type_handling = [''network-size'' \<mapsto> NetworkSize]"

fun call_handler ::
  "metric_handler \<Rightarrow> run \<Rightarrow> world \<Rightarrow> metric \<Rightarrow> (string \<rightharpoonup> pyval) \<Rightarrow> bool \<Rightarrow> world \<times> error option" where
  "call_handler NetworkSize = network_size"

definition unsupported_warning :: "string \<Rightarrow> string \<Rightarrow> string" where
  "unsupported_warning filepath metric_type =
     ''WARNING: file '' @ [CHR 0x27] @ filepath @ [CHR 0x27] @
     '' contains unsupported metric type '' @ [CHR 0x27] @ metric_type @ [CHR 0x27] @ ''; skipping''"

text \<open>The loop of \<open>default_parse_metrics\<close> over the listing; an exception of the handler
  ends it.\<close>

fun parse_files ::
  "run \<Rightarrow> string \<Rightarrow> (string \<rightharpoonup> pyval) \<Rightarrow> bool \<Rightarrow> entry list \<Rightarrow> world \<Rightarrow> world \<times> error option" where
  "parse_files wandb_run metrics_dirpath method_args last_file [] w = (w, None)"
| "parse_files wandb_run metrics_dirpath method_args last_file (e # es) w =
     (let filepath = join metrics_dirpath (fname e)
      in if \<not> regular e \<or> \<not> endswith filepath ''.yaml''
         then parse_files wandb_run metrics_dirpath method_args last_file es w
         else
           case metric_type_handling (mtype (parsed e)) of
             None \<Rightarrow>
               parse_files wandb_run metrics_dirpath method_args last_file es
                 (w\<lparr>stdout := stdout w @ [unsupported_warning filepath (mtype (parsed e))]\<rparr>)
           | Some type_handling \<Rightarrow>
               (case call_handler type_handling wandb_run w (parsed e) method_args last_file of
                  (w', Some err) \<Rightarrow> (w', Some err)
                | (w', None) \<Rightarrow>
                    parse_files wandb_run metrics_dirpath method_args last_file es w'))"

definition default_parse_metrics ::
  "(string \<Rightarrow> entry list) \<Rightarrow> run \<Rightarrow> world \<Rightarrow> string \<Rightarrow> (string \<rightharpoonup> pyval) \<Rightarrow> bool
   \<Rightarrow> world \<times> error option" where
  "default_parse_metrics listdir wandb_run w metrics_dirpath method_args last_file =
     parse_files wandb_run metrics_dirpath method_args last_file (listdir metrics_dirpath) w"

section \<open>The experiment invoker and the parsing dispatch\<close>

text \<open>The two environment variables after \<open>expandvars\<close>.\<close>

record env =
  experiment_script :: string
  exp_args :: string

text \<open>\<open>run_single_experiment\<close>: the command it executes and the elapsed time it returns.
  The elapsed time is what the two readings of the clock give; it is a parameter.\<close>

definition run_single_experiment ::
  "env \<Rightarrow> real \<Rightarrow> (string \<times> pyval) list \<Rightarrow> string \<Rightarrow> string option \<Rightarrow> string option
   \<Rightarrow> (string \<times> pyval) list \<Rightarrow> string list \<times> real" where
  "run_single_experiment ev elapsed config metrics_dirpath log_filepath artifacts_dirpath out_of_config =
     (let cmd0 = [''bash'', experiment_script ev];
          cmd1 = cmd0 @ [metrics_dirpath];
          cmd2 = (case log_filepath of None \<Rightarrow> cmd1 | Some p \<Rightarrow> cmd1 @ [p]);
          cmd3 = (case artifacts_dirpath of None \<Rightarrow> cmd2 | Some p \<Rightarrow> cmd2 @ [p]);
          cmd4 = cmd3 @ [exp_args ev];
          cmd5 = foldl (\<lambda>cmd (k, v). cmd @ [''--'' @ k @ ''='' @ py_str v]) cmd4 config;
          cmd6 = foldl (\<lambda>cmd (k, v). cmd @ [''--'' @ k @ ''='' @ py_str v]) cmd5 out_of_config
      in (cmd6, elapsed))"

text \<open>The parse routines are callables; the state they act on is a type parameter.\<close>

type_synonym 'w metrics_fn =
  "run \<Rightarrow> 'w \<Rightarrow> string \<Rightarrow> (string \<rightharpoonup> pyval) \<Rightarrow> bool \<Rightarrow> 'w \<times> error option"

type_synonym 'w path_fn =
  "run \<Rightarrow> 'w \<Rightarrow> string \<Rightarrow> (string \<rightharpoonup> pyval) \<Rightarrow> 'w \<times> error option"

text \<open>\<open>for i, metrics_dirpath in enumerate(metrics_dirlist)\<close>: \<open>n\<close> is \<open>len(metrics_dirlist)\<close>
  and \<open>i\<close> the index reached.\<close>

fun metrics_loop ::
  "'w metrics_fn \<Rightarrow> run \<Rightarrow> (string \<rightharpoonup> pyval) \<Rightarrow> nat \<Rightarrow> nat \<Rightarrow> string list \<Rightarrow> 'w \<Rightarrow> 'w \<times> error option" where
  "metrics_loop f wandb_run margs n i [] w = (w, None)"
| "metrics_loop f wandb_run margs n i (d # ds) w =
     (case f wandb_run w d margs (int i = int n - 1) of
        (w', Some err) \<Rightarrow> (w', Some err)
      | (w', None) \<Rightarrow> metrics_loop f wandb_run margs n (Suc i) ds w')"

fun paths_loop ::
  "'w path_fn \<Rightarrow> run \<Rightarrow> (string \<rightharpoonup> pyval) \<Rightarrow> string list \<Rightarrow> 'w \<Rightarrow> 'w \<times> error option" where
  "paths_loop f wandb_run pargs [] w = (w, None)"
| "paths_loop f wandb_run pargs (p # ps) w =
     (case f wandb_run w p pargs of
        (w', Some err) \<Rightarrow> (w', Some err)
      | (w', None) \<Rightarrow> paths_loop f wandb_run pargs ps w')"

definition run_parse_functions ::
  "run \<Rightarrow> 'w \<Rightarrow> string list \<Rightarrow> string list \<Rightarrow> string list
   \<Rightarrow> 'w metrics_fn option \<Rightarrow> (string \<rightharpoonup> pyval)
   \<Rightarrow> 'w path_fn option \<Rightarrow> (string \<rightharpoonup> pyval)
   \<Rightarrow> 'w path_fn option \<Rightarrow> (string \<rightharpoonup> pyval) \<Rightarrow> 'w \<times> error option" where
  "run_parse_functions wandb_run w metrics_dirlist logs_pathlist artifacts_dirlist
       metrics_parse_function metrics_method_args
       logfile_parse_function logfile_method_args
       artifacts_parse_function artifacts_method_args =
     (case (case metrics_parse_function of
              None \<Rightarrow> (w, None)
            | Some f \<Rightarrow> metrics_loop f wandb_run metrics_method_args
                          (length metrics_dirlist) 0 metrics_dirlist w) of
        (w1, Some err) \<Rightarrow> (w1, Some err)
      | (w1, None) \<Rightarrow>
          (case (case logfile_parse_function of
                   None \<Rightarrow> (w1, None)
                 | Some f \<Rightarrow> paths_loop f wandb_run logfile_method_args logs_pathlist w1) of
             (w2, Some err) \<Rightarrow> (w2, Some err)
           | (w2, None) \<Rightarrow>
               (case artifacts_parse_function of
                  None \<Rightarrow> (w2, None)
                | Some f \<Rightarrow> paths_loop f wandb_run artifacts_method_args artifacts_dirlist w2)))"

section \<open>The sweep run wrapper\<close>

text \<open>The fields of a \<open>RunWrapperSweep\<close> object; \<open>group_id\<close> holds the sweep id.\<close>

record 'w wrapper =
  group_id :: string
  metrics_dirpath :: string
  log_dirpath :: "string option"
  artifacts_dirpath :: "string option"
  metrics_fn :: "'w metrics_fn option"
  metrics_args :: "string \<rightharpoonup> pyval"
  logfile_fn :: "'w path_fn option"
  logfile_args :: "string \<rightharpoonup> pyval"
  artifacts_fn :: "'w path_fn option"
  artifacts_args :: "string \<rightharpoonup> pyval"
  runs_per_sweep :: int

text \<open>What the wrapper itself does, in order: the run it acquires, the directories it
  makes, the commands it executes, the scalar it logs and the final \<open>finish\<close>.  The calls
  into the operating system and the backend are taken to succeed.\<close>

datatype action =
    CreateRun
  | MakeDirs string
  | Invoke "string list"
  | LogScalar string pyfloat
  | Finish



section \<open>The batch scheduler and start-up\<close>

text \<open>\<open>int(v)\<close> on a configuration value; \<open>parse\<close> is what \<open>int\<close> makes of a string.\<close>

fun py_int :: "(string \<Rightarrow> int option) \<Rightarrow> pyval \<Rightarrow> error + int" where
  "py_int parse PNone = Inl TypeError"
| "py_int parse (PBool b) = Inr (if b then 1 else 0)"
| "py_int parse (PInt i) = Inr i"
| "py_int parse (PStr s) = (case parse s of None \<Rightarrow> Inl ValueError | Some i \<Rightarrow> Inr i)"

definition dict_get :: "(string \<rightharpoonup> pyval) \<Rightarrow> string \<Rightarrow> pyval" where
  "dict_get d k = (case d k of None \<Rightarrow> PNone | Some v \<Rightarrow> v)"

text \<open>\<open>runs\<close> and \<open>starting_run\<close>: the default on \<open>None\<close> and on \<open>ValueError\<close>; any other
  exception propagates.\<close>

definition int_or_default :: "(string \<Rightarrow> int option) \<Rightarrow> int \<Rightarrow> pyval \<Rightarrow> error + int" where
  "int_or_default parse dflt v =
     (if v = PNone then Inr dflt
      else case py_int parse v of
             Inl ValueError \<Rightarrow> Inr dflt
           | Inl e \<Rightarrow> Inl e
           | Inr i \<Rightarrow> Inr i)"

text \<open>A task handed to the pool: the group id its \<open>RunWrapperSimple\<close> was built with and
  the run index written into its configuration.\<close>

record task =
  task_group :: pyval
  task_run :: int

text \<open>One iteration of \<open>for curr_run in range(starting_run, runs)\<close>.  \<open>generate_id\<close> gives
  the ids the backend's generator returns, in the order of the calls; \<open>k\<close> counts the
  calls made.\<close>

definition spawn_step ::
  "(nat \<Rightarrow> string) \<Rightarrow> pyval \<times> nat \<times> task list \<Rightarrow> int \<Rightarrow> pyval \<times> nat \<times> task list" where
  "spawn_step generate_id st curr_run =
     (case st of (gid, k, tasks) \<Rightarrow>
      case (if gid = PNone \<or> gid = PStr ''auto''
            then (PStr (generate_id k), Suc k) else (gid, k)) of
        (gid', k') \<Rightarrow>
          (gid', k', tasks @ [\<lparr>task_group = gid', task_run = curr_run\<rparr>]))"

text \<open>\<open>perform_single_experiment\<close> up to the submission of the tasks: the tasks submitted
  and the number of ids generated.  \<open>mp.Pool\<close> raises \<open>ValueError\<close> on fewer than one
  process.\<close>

definition perform_single_experiment ::
  "(string \<Rightarrow> int option) \<Rightarrow> (nat \<Rightarrow> string) \<Rightarrow> (string \<rightharpoonup> pyval) \<Rightarrow> error + task list \<times> nat" where
  "perform_single_experiment parse generate_id run_conf =
     (let gid = dict_get run_conf ''group-by''
      in case int_or_default parse 1 (dict_get run_conf ''num-runs-limit'') of
           Inl e \<Rightarrow> Inl e
         | Inr runs \<Rightarrow>
             (case int_or_default parse 0 (dict_get run_conf ''num-runs-start'') of
                Inl e \<Rightarrow> Inl e
              | Inr starting_run \<Rightarrow>
                  (case (case run_conf ''parallel'' of
                           None \<Rightarrow> Inr 1
                         | Some v \<Rightarrow> py_int parse v) of
                     Inl e \<Rightarrow> Inl e
                   | Inr parallel \<Rightarrow>
                       if parallel < 1 then Inl ValueError
                       else
                         case foldl (spawn_step generate_id) (gid, 0, [])
                                [starting_run..runs - 1] of
                           (gid', k, tasks) \<Rightarrow> Inr (tasks, k))))"

text \<open>The configuration document as \<open>main\<close> reads it: the \<open>parsing-setup\<close> section with
  its three optional categories, each with an optional \<open>method\<close> and \<open>args\<close>.\<close>

record category =
  cat_method :: "string option"
  cat_args :: "(string \<rightharpoonup> pyval) option"

record parsing_setup =
  ps_metrics :: "category option"
  ps_logfile :: "category option"
  ps_artifacts :: "category option"

record config =
  parsing :: "parsing_setup option"
  run_setup :: "(string \<rightharpoonup> pyval) option"

datatype metrics_routine = DefaultParseMetrics
datatype logfile_routine = DefaultParseLogfile
datatype artifacts_routine = DefaultParseArtifacts

definition metric_dict :: "string \<rightharpoonup> metrics_routine" where
  "metric_dict = [''default'' \<mapsto> DefaultParseMetrics]"

definition logfile_dict :: "string \<rightharpoonup> logfile_routine" where
  "logfile_dict = [''default'' \<mapsto> DefaultParseLogfile]"

definition artifact_dict :: "string \<rightharpoonup> artifacts_routine" where
  "artifact_dict = [''default'' \<mapsto> DefaultParseArtifacts]"

text \<open>What \<open>main\<close> goes on to call once the three routines are found.\<close>

record resolved =
  metric_fn :: metrics_routine
  metric_args :: "string \<rightharpoonup> pyval"
  logfile_fn' :: logfile_routine
  logfile_args' :: "string \<rightharpoonup> pyval"
  artifact_fn :: artifacts_routine
  artifact_args :: "string \<rightharpoonup> pyval"

datatype launch = PerformSweep string resolved | PerformSingle "string \<rightharpoonup> pyval" resolved

definition lookup_category ::
  "(string \<rightharpoonup> 'r) \<Rightarrow> category option \<Rightarrow> 'r option \<times> (string \<rightharpoonup> pyval)" where
  "lookup_category table c =
     (case c of
        None \<Rightarrow> (None, Map.empty)
      | Some sec \<Rightarrow>
          (table (case cat_method sec of None \<Rightarrow> ''default'' | Some name \<Rightarrow> name),
           (case cat_args sec of None \<Rightarrow> Map.empty | Some a \<Rightarrow> a)))"

definition main :: "config \<Rightarrow> string option \<Rightarrow> error + launch" where
  "main conf sweep_path =
     (case (case parsing conf of
              None \<Rightarrow> ((None, Map.empty), (None, Map.empty), (None, Map.empty))
            | Some parsing_conf \<Rightarrow>
                (lookup_category metric_dict (ps_metrics parsing_conf),
                 lookup_category logfile_dict (ps_logfile parsing_conf),
                 lookup_category artifact_dict (ps_artifacts parsing_conf))) of
        ((mf, ma), (lf, la), (af, aa)) \<Rightarrow>
          (case mf of
             None \<Rightarrow> Inl (NotImplementedError ''Metric parsing function not found'')
           | Some mfn \<Rightarrow>
          (case lf of
             None \<Rightarrow> Inl (NotImplementedError ''Logfile parsing function not found'')
           | Some lfn \<Rightarrow>
          (case af of
             None \<Rightarrow> Inl (NotImplementedError ''Artifacts parsing function not found'')
           | Some afn \<Rightarrow>
               (let r = \<lparr>metric_fn = mfn, metric_args = ma, logfile_fn' = lfn,
                         logfile_args' = la, artifact_fn = afn, artifact_args = aa\<rparr>
                in case sweep_path of
                     Some p \<Rightarrow> Inr (PerformSweep p r)
                   | None \<Rightarrow>
                       Inr (PerformSingle
                              (case run_setup conf of None \<Rightarrow> Map.empty | Some rs \<Rightarrow> rs) r))))))"

section \<open>The aggregate as the specification words it\<close>

text \<open>The specification's wording of the aggregate: all \<open>(x, y)\<close> pairs of the records,
  the samples pooled per \<open>x\<close>, the distinct \<open>x\<close> values in the order first seen, the
  arithmetic mean, and the scalars written from them.\<close>

definition spec_pairs :: "metric list \<Rightarrow> (int \<times> real) list" where
  "spec_pairs ms = concat (map (\<lambda>m. zip (x_values m) (y_values m)) ms)"

definition spec_pooled :: "int \<Rightarrow> (int \<times> real) list \<Rightarrow> real list" where
  "spec_pooled x ps = map snd (filter (\<lambda>p. fst p = x) ps)"

definition spec_distinct_xs :: "(int \<times> real) list \<Rightarrow> int list" where
  "spec_distinct_xs ps = rev (remdups (rev (map fst ps)))"

definition spec_mean :: "real list \<Rightarrow> real" where
  "spec_mean vs = sum_list vs / real (length vs)"

definition spec_per_x_mean :: "metric list \<Rightarrow> int \<Rightarrow> real" where
  "spec_per_x_mean ms x = spec_mean (spec_pooled x (spec_pairs ms))"

definition spec_flush_scalars :: "string \<Rightarrow> metric list \<Rightarrow> log_entry list" where
  "spec_flush_scalars name ms =
     map (\<lambda>x. Scalar (name @ ''_at_'' @ str_int x) (Num (spec_per_x_mean ms x)) False)
       (spec_distinct_xs (spec_pairs ms))
     @ [Scalar (name @ ''_avg'')
          (Num (spec_mean (map (spec_per_x_mean ms) (spec_distinct_xs (spec_pairs ms))))) True]"

definition chart_entry ::
  "run \<Rightarrow> metric \<Rightarrow> (string \<rightharpoonup> pyval) \<Rightarrow> metric list \<Rightarrow> log_entry list" where
  "chart_entry r m args ms =
     (if args ''lineseries'' = Some (PBool True)
      then [LineSeries (metric_name m @ ''_series'') (spec_distinct_xs (spec_pairs ms))
              (map (\<lambda>x. Num (spec_per_x_mean ms x)) (spec_distinct_xs (spec_pairs ms)))
              (run_group r) (y_axis m) (x_axis m)]
      else [])"

text \<open>The records held in the storage under a name.\<close>

definition buffered :: "world \<Rightarrow> string \<Rightarrow> metric list" where
  "buffered w name = (case metrics_storage w name of None \<Rightarrow> [] | Some l \<Rightarrow> l)"

text \<open>Successive calls of the aggregator within one process, each record with its
  \<open>last_file\<close> flag; an exception ends the sequence.\<close>

fun ingest ::
  "run \<Rightarrow> (string \<rightharpoonup> pyval) \<Rightarrow> (metric \<times> bool) list \<Rightarrow> world \<Rightarrow> world \<times> error option" where
  "ingest r args [] w = (w, None)"
| "ingest r args ((m, last_file) # rest) w =
     (case network_size r w m args last_file of
        (w', Some err) \<Rightarrow> (w', Some err)
      | (w', None) \<Rightarrow> ingest r args rest w')"

text \<open>The committed scalar is the overall average: one per aggregate emitted.\<close>

fun committed :: "log_entry \<Rightarrow> bool" where
  "committed (Scalar name v c) = c"
| "committed _ = False"

definition emitted :: "world \<Rightarrow> world \<Rightarrow> log_entry list" where
  "emitted w w' = drop (length (wb_log w)) (wb_log w')"

text \<open>What a parse leaves behind apart from the printed lines: the storage, the calls on
  the tracked run, and the exception if any.\<close>

definition observable ::
  "world \<times> error option \<Rightarrow> (string \<rightharpoonup> metric list) \<times> log_entry list \<times> error option" where
  "observable res = (metrics_storage (fst res), wb_log (fst res), snd res)"

text \<open>A metrics routine called on given (directory, terminal flag) pairs, one after the
  other; an exception ends the sequence.\<close>

fun seq_calls ::
  "'w metrics_fn \<Rightarrow> run \<Rightarrow> (string \<rightharpoonup> pyval) \<Rightarrow> (string \<times> bool) list \<Rightarrow> 'w \<Rightarrow> 'w \<times> error option" where
  "seq_calls f r a [] w = (w, None)"
| "seq_calls f r a ((d, flag) # cs) w =
     (case f r w d a flag of
        (w', Some err) \<Rightarrow> (w', Some err)
      | (w', None) \<Rightarrow> seq_calls f r a cs w')"

text \<open>Projections of the wrapper's trace.\<close>

fun invocations :: "action list \<Rightarrow> string list list" where
  "invocations [] = []"
| "invocations (Invoke cmd # as) = cmd # invocations as"
| "invocations (_ # as) = invocations as"

fun finishes :: "action list \<Rightarrow> nat" where
  "finishes [] = 0"
| "finishes (Finish # as) = Suc (finishes as)"
| "finishes (_ # as) = finishes as"

fun logged :: "string \<Rightarrow> action list \<Rightarrow> pyfloat list" where
  "logged name [] = []"
| "logged name (LogScalar n v # as) = (if n = name then v # logged name as else logged name as)"
| "logged name (_ # as) = logged name as"







text \<open>The specification's wording of the method name of a category: the configured name,
  \<open>default\<close> when none is configured.\<close>

definition spec_method_name :: "category option \<Rightarrow> string" where
  "spec_method_name c =
     (case c of
        None \<Rightarrow> ''default''
      | Some sec \<Rightarrow> (case cat_method sec of None \<Rightarrow> ''default'' | Some name \<Rightarrow> name))"

section \<open>The arithmetic of the aggregator in doubles\<close>

text \<open>
  Rounding to the nearest double, ties to even (binary64: 53 significant bits, steps of
  \<open>2 ^ -1074\<close> at the bottom of the range; overflow is not represented).  \<open>bit_length k\<close> is
  the number of binary digits of \<open>k\<close>.
\<close>

fun bit_length :: "nat \<Rightarrow> nat" where
  "bit_length n = (if n = 0 then 0 else Suc (bit_length (n div 2)))"

declare bit_length.simps [simp del]

definition half_even :: "real \<Rightarrow> int" where
  "half_even r =
     (let f = \<lfloor>r\<rfloor>; d = r - of_int f
      in if d < 1 / 2 then f else if 1 / 2 < d then f + 1 else if even f then f else f + 1)"

definition round64 :: "real \<Rightarrow> real" where
  "round64 x =
     (let a = \<bar>x\<bar> * 2 ^ 1074;
          s = bit_length (nat \<lfloor>a\<rfloor>) - 53
      in sgn x * (of_int (half_even (a / 2 ^ s)) * 2 ^ s / 2 ^ 1074))"

text \<open>
  The arithmetic of \<open>network_size\<close> with the result of every addition and division of two
  floats rounded by \<open>rnd\<close>: \<open>np.mean\<close> (the elements added from left to right, as numpy adds
  an array of fewer than eight elements, then divided by their number), \<open>+=\<close>, \<open>/\<close>, and the
  two loops built on them.  With the identity for \<open>rnd\<close> these are the exact definitions
  above; with \<open>round64\<close> they are the doubles of the program.
\<close>

fun np_mean_rnd :: "(real \<Rightarrow> real) \<Rightarrow> real list \<Rightarrow> pyfloat" where
  "np_mean_rnd rnd [] = NaN"
| "np_mean_rnd rnd (v # vs) =
     Num (rnd (foldl (\<lambda>s y. rnd (s + y)) 0 (v # vs) / real (length (v # vs))))"

fun fadd_rnd :: "(real \<Rightarrow> real) \<Rightarrow> pyfloat \<Rightarrow> pyfloat \<Rightarrow> pyfloat" where
  "fadd_rnd rnd (Num a) (Num b) = Num (rnd (a + b))"
| "fadd_rnd rnd _ _ = NaN"

fun py_div_rnd :: "(real \<Rightarrow> real) \<Rightarrow> pyfloat \<Rightarrow> nat \<Rightarrow> error + pyfloat" where
  "py_div_rnd rnd a 0 = Inl ZeroDivisionError"
| "py_div_rnd rnd (Num a) (Suc n) = Inr (Num (rnd (a / real (Suc n))))"
| "py_div_rnd rnd NaN (Suc n) = Inr NaN"

definition reduce_means_rnd ::
  "(real \<Rightarrow> real) \<Rightarrow> (int \<times> real list) list \<Rightarrow> (int \<times> pyfloat) list" where
  "reduce_means_rnd rnd agg = map (\<lambda>(k, v). (k, np_mean_rnd rnd v)) agg"

definition log_mean_rnd ::
  "(real \<Rightarrow> real) \<Rightarrow> string
   \<Rightarrow> log_entry list \<times> pyfloat \<times> nat \<times> int list \<times> pyfloat list \<Rightarrow> int \<times> pyfloat
   \<Rightarrow> log_entry list \<times> pyfloat \<times> nat \<times> int list \<times> pyfloat list" where
  "log_mean_rnd rnd name st xy =
     (case st of (lg, acc, cnt, xs, ys) \<Rightarrow>
      case xy of (x, y) \<Rightarrow>
        (lg @ [Scalar (name @ ''_at_'' @ str_int x) y False],
         fadd_rnd rnd acc y, cnt + 1, xs @ [x], ys @ [y]))"

definition log_means_rnd ::
  "(real \<Rightarrow> real) \<Rightarrow> string \<Rightarrow> log_entry list \<Rightarrow> (int \<times> pyfloat) list
   \<Rightarrow> log_entry list \<times> pyfloat \<times> nat \<times> int list \<times> pyfloat list" where
  "log_means_rnd rnd name lg agg = foldl (log_mean_rnd rnd name) (lg, Num 0, 0, [], []) agg"

text \<open>The overall average the flush of a list of records computes and logs, or the
  exception of its division.\<close>

definition flush_average ::
  "(real \<Rightarrow> real) \<Rightarrow> string \<Rightarrow> metric list \<Rightarrow> error + pyfloat" where
  "flush_average rnd name metrics_list =
     (case log_means_rnd rnd name [] (reduce_means_rnd rnd (collect_samples metrics_list)) of
        (lg, acc, cnt, xs, ys) \<Rightarrow> py_div_rnd rnd acc cnt)"

section \<open>Properties of the aggregator\<close>

lemmas str_nat_numeral [simp] =
  str_nat.simps [of "numeral k"] str_nat.simps [of 0] str_nat.simps [of 1]
  str_nat.simps [of "Suc 0"] for k

lemma foldl_nested_concat:
  "foldl (\<lambda>agg m. foldl g agg (h m)) a ms = foldl g a (concat (map h ms))"
  by (induction ms arbitrary: a) simp_all

lemma collect_samples_pairs:
  "collect_samples ms = foldl (\<lambda>a (x, y). agg_append x y a) [] (spec_pairs ms)"
  unfolding collect_samples_def spec_pairs_def by (rule foldl_nested_concat)

lemma agg_append_map:
  "distinct ks \<Longrightarrow>
   agg_append x y (map (\<lambda>k. (k, f k)) ks) =
     (if x \<in> set ks then map (\<lambda>k. (k, if k = x then f k @ [y] else f k)) ks
      else map (\<lambda>k. (k, f k)) ks @ [(x, [y])])"
  by (induction ks) auto

lemma spec_distinct_xs_snoc:
  "spec_distinct_xs (ps @ [(x, y)]) =
     (if x \<in> fst ` set ps then spec_distinct_xs ps else spec_distinct_xs ps @ [x])"
  by (simp add: spec_distinct_xs_def)

lemma spec_distinct_xs_distinct [simp]: "distinct (spec_distinct_xs ps)"
  by (simp add: spec_distinct_xs_def)

lemma set_spec_distinct_xs [simp]: "set (spec_distinct_xs ps) = fst ` set ps"
  by (simp add: spec_distinct_xs_def)

lemma spec_distinct_xs_Nil [simp]: "spec_distinct_xs [] = []"
  by (simp add: spec_distinct_xs_def)

lemma spec_distinct_xs_Nil_iff [simp]: "spec_distinct_xs ps = [] \<longleftrightarrow> ps = []"
  by (simp add: spec_distinct_xs_def)

lemma spec_pooled_snoc:
  "spec_pooled k (ps @ [(x, y)]) = (if k = x then spec_pooled k ps @ [y] else spec_pooled k ps)"
  by (simp add: spec_pooled_def)

lemma spec_pooled_empty: "x \<notin> fst ` set ps \<Longrightarrow> spec_pooled x ps = []"
  by (auto simp: spec_pooled_def filter_empty_conv)

lemma spec_pooled_nonempty: "x \<in> fst ` set ps \<Longrightarrow> spec_pooled x ps \<noteq> []"
  by (auto simp: spec_pooled_def filter_empty_conv)

lemma collect_pairs_grouped:
  "foldl (\<lambda>a (x, y). agg_append x y a) [] ps =
     map (\<lambda>x. (x, spec_pooled x ps)) (spec_distinct_xs ps)"
proof (induction ps rule: rev_induct)
  case Nil
  show ?case by simp
next
  case (snoc p ps)
  obtain x y where p: "p = (x, y)" by (cases p)
  show ?case
  proof (cases "x \<in> fst ` set ps")
    case True
    then show ?thesis
      using snoc agg_append_map [of "spec_distinct_xs ps" x y "\<lambda>k. spec_pooled k ps"]
      by (simp add: p spec_distinct_xs_snoc spec_pooled_snoc)
  next
    case False
    then show ?thesis
      using snoc agg_append_map [of "spec_distinct_xs ps" x y "\<lambda>k. spec_pooled k ps"]
      by (auto simp add: p spec_distinct_xs_snoc spec_pooled_snoc spec_pooled_empty)
  qed
qed

lemma collect_samples_grouped:
  "collect_samples ms =
     map (\<lambda>x. (x, spec_pooled x (spec_pairs ms))) (spec_distinct_xs (spec_pairs ms))"
  by (simp add: collect_samples_pairs collect_pairs_grouped)

lemma np_mean_nonempty: "vs \<noteq> [] \<Longrightarrow> np_mean vs = Num (spec_mean vs)"
  by (cases vs) (simp_all add: spec_mean_def)

lemma reduce_means_grouped:
  "reduce_means (collect_samples ms) =
     map (\<lambda>x. (x, Num (spec_per_x_mean ms x))) (spec_distinct_xs (spec_pairs ms))"
  by (simp add: collect_samples_grouped reduce_means_def np_mean_nonempty spec_pooled_nonempty
      spec_per_x_mean_def)

lemma foldl_log_mean:
  "foldl (log_mean name) (lg, Num s, c, xs, ys) (map (\<lambda>x. (x, Num (f x))) ks) =
     (lg @ map (\<lambda>x. Scalar (name @ ''_at_'' @ str_int x) (Num (f x)) False) ks,
      Num (s + sum_list (map f ks)), c + length ks, xs @ ks, ys @ map (\<lambda>x. Num (f x)) ks)"
  by (induction ks arbitrary: lg s c xs ys) (simp_all add: log_mean_def algebra_simps)

lemma log_means_grouped:
  "log_means name lg (reduce_means (collect_samples ms)) =
     (lg @ map (\<lambda>x. Scalar (name @ ''_at_'' @ str_int x) (Num (spec_per_x_mean ms x)) False)
             (spec_distinct_xs (spec_pairs ms)),
      Num (sum_list (map (spec_per_x_mean ms) (spec_distinct_xs (spec_pairs ms)))),
      length (spec_distinct_xs (spec_pairs ms)),
      spec_distinct_xs (spec_pairs ms),
      map (\<lambda>x. Num (spec_per_x_mean ms x)) (spec_distinct_xs (spec_pairs ms)))"
  unfolding log_means_def reduce_means_grouped
  using foldl_log_mean [of name lg 0 0 "[]" "[]" "spec_per_x_mean ms"
      "spec_distinct_xs (spec_pairs ms)"]
  by simp

lemma py_div_Num: "0 < n \<Longrightarrow> py_div (Num a) n = Inr (Num (a / real n))"
  by (cases n) simp_all

lemma network_size_defer:
  "network_size r w m args False =
     (w\<lparr>metrics_storage :=
          (metrics_storage w)(metric_name m \<mapsto> buffered w (metric_name m) @ [m])\<rparr>, None)"
  by (simp add: network_size_def Let_def buffered_def)

lemma aggregate_and_log_empty:
  "spec_pairs ms = [] \<Longrightarrow> aggregate_and_log r w m args ms = (w, Some ZeroDivisionError)"
  by (simp add: aggregate_and_log_def log_means_grouped Let_def)

lemma aggregate_and_log_nonempty:
  "spec_pairs ms \<noteq> [] \<Longrightarrow>
   aggregate_and_log r w m args ms =
     (w\<lparr>wb_log := wb_log w @ spec_flush_scalars (metric_name m) ms @ chart_entry r m args ms\<rparr>,
      None)"
  by (simp add: aggregate_and_log_def log_means_grouped Let_def py_div_Num
      spec_flush_scalars_def chart_entry_def spec_mean_def)

lemma network_size_flush:
  "network_size r w m args True =
     aggregate_and_log r (w\<lparr>metrics_storage := (metrics_storage w)(metric_name m := None)\<rparr>)
       m args (buffered w (metric_name m) @ [m])"
  by (simp add: network_size_def Let_def buffered_def)

lemma network_size_flush_empty:
  assumes "spec_pairs (buffered w (metric_name m) @ [m]) = []"
  shows "network_size r w m args True =
     (w\<lparr>metrics_storage := (metrics_storage w)(metric_name m := None)\<rparr>,
      Some ZeroDivisionError)"
  using assms by (simp add: network_size_flush aggregate_and_log_empty)

lemma network_size_flush_nonempty:
  assumes "spec_pairs (buffered w (metric_name m) @ [m]) \<noteq> []"
  shows "network_size r w m args True =
     (w\<lparr>metrics_storage := (metrics_storage w)(metric_name m := None),
        wb_log := wb_log w @ spec_flush_scalars (metric_name m) (buffered w (metric_name m) @ [m])
                   @ chart_entry r m args (buffered w (metric_name m) @ [m])\<rparr>, None)"
  using assms by (simp add: network_size_flush aggregate_and_log_nonempty)

lemma ingest_append:
  "ingest r a (xs @ ys) w =
     (case ingest r a xs w of (w', Some e) \<Rightarrow> (w', Some e) | (w', None) \<Rightarrow> ingest r a ys w')"
  by (induction r a xs w rule: ingest.induct) (auto split: prod.splits option.splits)

lemma buffered_upd [simp]:
  "buffered (w\<lparr>metrics_storage := (metrics_storage w)(n \<mapsto> l)\<rparr>) n = l"
  by (simp add: buffered_def)

lemma ingest_deferred:
  "\<forall>m\<in>set rs. metric_name m = n \<Longrightarrow>
   ingest r a (map (\<lambda>m. (m, False)) rs) w =
     ((if rs = [] then w
       else w\<lparr>metrics_storage := (metrics_storage w)(n \<mapsto> buffered w n @ rs)\<rparr>), None)"
proof (induction rs arbitrary: w)
  case Nil
  show ?case by simp
next
  case (Cons m rs)
  then show ?case by (simp add: network_size_defer)
qed

lemma ingest_terminal:
  assumes "\<forall>m\<in>set rs. metric_name m = metric_name r"
  shows "ingest run a (map (\<lambda>m. (m, False)) rs @ [(r, True)]) w =
     aggregate_and_log run (w\<lparr>metrics_storage := (metrics_storage w)(metric_name r := None)\<rparr>)
       r a (buffered w (metric_name r) @ rs @ [r])"
  using ingest_deferred [OF assms, of run a w]
  by (auto simp add: ingest_append network_size_flush split: prod.splits option.splits)


lemma committed_flush_scalars [simp]:
  "filter committed (spec_flush_scalars n ms) =
     [Scalar (n @ ''_avg'')
        (Num (spec_mean (map (spec_per_x_mean ms) (spec_distinct_xs (spec_pairs ms))))) True]"
  by (simp add: spec_flush_scalars_def filter_empty_conv)

lemma committed_chart_entry [simp]: "filter committed (chart_entry r m a ms) = []"
  by (simp add: chart_entry_def)

lemma emitted_simps [simp]:
  "emitted w (w\<lparr>metrics_storage := st\<rparr>) = []"
  "emitted w (w\<lparr>metrics_storage := st, wb_log := wb_log w @ l\<rparr>) = l"
  by (simp_all add: emitted_def)

text \<open>
  Claim C1, as the code has it.  For records that share one metric name and carry the
  terminal flag only on the last: nothing is written before the terminal record; at the
  terminal record the storage entry of the name is removed, whatever the samples; at most
  one aggregate (one committed average) is written, and exactly one, with no error, when
  the flushed records hold at least one \<open>(x, y)\<close> pair; after the flush a further terminal
  record of that name is aggregated from a list that holds only itself.
\<close>

theorem ingest_single_flush:
  assumes "\<forall>m\<in>set rs. metric_name m = metric_name r"
  shows "case ingest run a (map (\<lambda>m. (m, False)) rs @ [(r, True)]) w of
           (w', e) \<Rightarrow>
             wb_log (fst (ingest run a (map (\<lambda>m. (m, False)) rs) w)) = wb_log w
           \<and> metrics_storage w' (metric_name r) = None
           \<and> length (filter committed (emitted w w')) \<le> 1
           \<and> (spec_pairs (buffered w (metric_name r) @ rs @ [r]) \<noteq> [] \<longrightarrow>
                e = None
              \<and> length (filter committed (emitted w w')) = 1
              \<and> emitted w w' =
                  spec_flush_scalars (metric_name r) (buffered w (metric_name r) @ rs @ [r])
                  @ chart_entry run r a (buffered w (metric_name r) @ rs @ [r]))
           \<and> (\<forall>r'. metric_name r' = metric_name r \<longrightarrow>
                network_size run w' r' a True = aggregate_and_log run w' r' a [r'])"
proof -
  let ?ms = "buffered w (metric_name r) @ rs @ [r]"
  let ?w0 = "w\<lparr>metrics_storage := (metrics_storage w)(metric_name r := None)\<rparr>"
  have pre: "wb_log (fst (ingest run a (map (\<lambda>m. (m, False)) rs) w)) = wb_log w"
    using ingest_deferred [OF assms, of run a w] by simp
  have fresh: "network_size run w' r' a True = aggregate_and_log run w' r' a [r']"
    if "metrics_storage w' (metric_name r) = None" "metric_name r' = metric_name r" for w' r'
  proof -
    have "(metrics_storage w')(metric_name r := None) = metrics_storage w'"
      using that(1) by (simp add: fun_upd_idem_iff)
    then show ?thesis
      using that by (simp add: network_size_flush buffered_def)
  qed
  show ?thesis
  proof (cases "spec_pairs ?ms = []")
    case True
    have res: "ingest run a (map (\<lambda>m. (m, False)) rs @ [(r, True)]) w =
        (?w0, Some ZeroDivisionError)"
      by (simp add: ingest_terminal [OF assms] aggregate_and_log_empty [OF True])
    have "metrics_storage ?w0 (metric_name r) = None" by simp
    with fresh have "\<forall>r'. metric_name r' = metric_name r \<longrightarrow>
        network_size run ?w0 r' a True = aggregate_and_log run ?w0 r' a [r']"
      by blast
    then show ?thesis
      unfolding res using pre True by simp
  next
    case False
    let ?w1 = "?w0\<lparr>wb_log := wb_log ?w0 @ spec_flush_scalars (metric_name r) ?ms
                        @ chart_entry run r a ?ms\<rparr>"
    have res: "ingest run a (map (\<lambda>m. (m, False)) rs @ [(r, True)]) w = (?w1, None)"
      by (simp add: ingest_terminal [OF assms] aggregate_and_log_nonempty [OF False])
    have "metrics_storage ?w1 (metric_name r) = None" by simp
    with fresh have "\<forall>r'. metric_name r' = metric_name r \<longrightarrow>
        network_size run ?w1 r' a True = aggregate_and_log run ?w1 r' a [r']"
      by blast
    then show ?thesis
      unfolding res using pre False by simp
  qed
qed

theorem ingest_single_flush_witness:
  "(case ingest \<lparr>run_id = ''r1'', run_group = ''g'', run_config = []\<rparr> Map.empty
      (map (\<lambda>m. (m, False))
         [\<lparr>mtype = ''network-size'', metric_name = ''pdr'', x_values = [50, 100],
            y_values = [1, 3], x_axis = ''nodes'', y_axis = ''pdr''\<rparr>] @
       [(\<lparr>mtype = ''network-size'', metric_name = ''pdr'', x_values = [50, 100],
           y_values = [3, 4], x_axis = ''nodes'', y_axis = ''pdr''\<rparr>, True)])
      \<lparr>metrics_storage = Map.empty, wb_log = [], stdout = []\<rparr> of
      (w', e) \<Rightarrow>
        e = None \<and> metrics_storage w' ''pdr'' = None
      \<and> length (filter committed
           (emitted \<lparr>metrics_storage = Map.empty, wb_log = [], stdout = []\<rparr> w')) = 1
      \<and> emitted \<lparr>metrics_storage = Map.empty, wb_log = [], stdout = []\<rparr> w' =
           [Scalar ''pdr_at_50'' (Num 2) False, Scalar ''pdr_at_100'' (Num (7 / 2)) False,
            Scalar ''pdr_avg'' (Num (11 / 4)) True]
      \<and> network_size \<lparr>run_id = ''r1'', run_group = ''g'', run_config = []\<rparr> w'
           \<lparr>mtype = ''network-size'', metric_name = ''pdr'', x_values = [50],
            y_values = [9], x_axis = ''nodes'', y_axis = ''pdr''\<rparr> Map.empty True =
         aggregate_and_log \<lparr>run_id = ''r1'', run_group = ''g'', run_config = []\<rparr> w'
           \<lparr>mtype = ''network-size'', metric_name = ''pdr'', x_values = [50],
            y_values = [9], x_axis = ''nodes'', y_axis = ''pdr''\<rparr> Map.empty
           [\<lparr>mtype = ''network-size'', metric_name = ''pdr'', x_values = [50],
             y_values = [9], x_axis = ''nodes'', y_axis = ''pdr''\<rparr>])"
  using ingest_single_flush
    [of "[\<lparr>mtype = ''network-size'', metric_name = ''pdr'', x_values = [50, 100],
            y_values = [1, 3], x_axis = ''nodes'', y_axis = ''pdr''\<rparr>]"
        "\<lparr>mtype = ''network-size'', metric_name = ''pdr'', x_values = [50, 100],
           y_values = [3, 4], x_axis = ''nodes'', y_axis = ''pdr''\<rparr>"
        "\<lparr>run_id = ''r1'', run_group = ''g'', run_config = []\<rparr>" Map.empty
        "\<lparr>metrics_storage = Map.empty, wb_log = [], stdout = []\<rparr>"]
  by (simp add: split_beta buffered_def spec_pairs_def spec_flush_scalars_def
      spec_distinct_xs_def spec_per_x_mean_def spec_pooled_def spec_mean_def chart_entry_def
      str_int_def del: ingest.simps)

text \<open>
  A single terminal record without samples: the division raises and no aggregate is
  written, so ``exactly one aggregate for every sequence'' does not hold.
\<close>

theorem ingest_empty_samples_counterexample:
  "snd (ingest \<lparr>run_id = ''r1'', run_group = ''g'', run_config = []\<rparr> Map.empty
          [(\<lparr>mtype = ''network-size'', metric_name = ''pdr'', x_values = [],
              y_values = [], x_axis = ''nodes'', y_axis = ''pdr''\<rparr>, True)]
          \<lparr>metrics_storage = Map.empty, wb_log = [], stdout = []\<rparr>) = Some ZeroDivisionError
   \<and> filter committed
        (emitted \<lparr>metrics_storage = Map.empty, wb_log = [], stdout = []\<rparr>
           (fst (ingest \<lparr>run_id = ''r1'', run_group = ''g'', run_config = []\<rparr> Map.empty
                   [(\<lparr>mtype = ''network-size'', metric_name = ''pdr'', x_values = [],
                       y_values = [], x_axis = ''nodes'', y_axis = ''pdr''\<rparr>, True)]
                   \<lparr>metrics_storage = Map.empty, wb_log = [], stdout = []\<rparr>))) = []"
  by (simp add: network_size_flush_empty buffered_def spec_pairs_def emitted_def)



lemma length_spec_distinct_xs: "length (spec_distinct_xs ps) = card (fst ` set ps)"
  using distinct_card [of "spec_distinct_xs ps"] by simp

text \<open>
  Claim C10.  The divisor of the division computing \<open><name>_avg\<close> is the number of distinct
  \<open>x\<close> values among the flushed pairs, and nothing guards it: the call raises
  \<open>ZeroDivisionError\<close> exactly when the flushed records hold no pair, does not raise when
  they hold one, and raises for a terminal record with empty \<open>x-values\<close> and \<open>y-values\<close>
  when nothing buffered under its name holds a pair.
\<close>

theorem network_size_divisor:
  "(case log_means (metric_name m) lg
           (reduce_means (collect_samples (buffered w (metric_name m) @ [m]))) of
      (lg', acc, cnt, xs, ys) \<Rightarrow> cnt) =
     card (fst ` set (spec_pairs (buffered w (metric_name m) @ [m])))
   \<and> (snd (network_size r w m args True) = Some ZeroDivisionError) =
       (spec_pairs (buffered w (metric_name m) @ [m]) = [])
   \<and> (spec_pairs (buffered w (metric_name m) @ [m]) \<noteq> [] \<longrightarrow>
        snd (network_size r w m args True) = None)
   \<and> (x_values m = [] \<and> y_values m = [] \<and> spec_pairs (buffered w (metric_name m)) = [] \<longrightarrow>
        network_size r w m args True =
          (w\<lparr>metrics_storage := (metrics_storage w)(metric_name m := None)\<rparr>,
           Some ZeroDivisionError))"
proof (intro conjI impI)
  show "(case log_means (metric_name m) lg
           (reduce_means (collect_samples (buffered w (metric_name m) @ [m]))) of
      (lg', acc, cnt, xs, ys) \<Rightarrow> cnt) =
     card (fst ` set (spec_pairs (buffered w (metric_name m) @ [m])))"
    by (simp add: log_means_grouped length_spec_distinct_xs)
next
  show "(snd (network_size r w m args True) = Some ZeroDivisionError) =
       (spec_pairs (buffered w (metric_name m) @ [m]) = [])"
    by (cases "spec_pairs (buffered w (metric_name m) @ [m]) = []")
      (simp_all add: network_size_flush_empty network_size_flush_nonempty)
next
  assume "spec_pairs (buffered w (metric_name m) @ [m]) \<noteq> []"
  then show "snd (network_size r w m args True) = None"
    by (simp add: network_size_flush_nonempty)
next
  assume "x_values m = [] \<and> y_values m = [] \<and> spec_pairs (buffered w (metric_name m)) = []"
  then have "spec_pairs (buffered w (metric_name m) @ [m]) = []"
    by (simp add: spec_pairs_def)
  then show "network_size r w m args True =
          (w\<lparr>metrics_storage := (metrics_storage w)(metric_name m := None)\<rparr>,
           Some ZeroDivisionError)"
    by (rule network_size_flush_empty)
qed

theorem network_size_divisor_witness:
  "network_size \<lparr>run_id = ''r1'', run_group = ''g'', run_config = []\<rparr>
     \<lparr>metrics_storage = Map.empty, wb_log = [], stdout = []\<rparr>
     \<lparr>mtype = ''network-size'', metric_name = ''pdr'', x_values = [],
      y_values = [], x_axis = ''nodes'', y_axis = ''pdr''\<rparr> Map.empty True =
     (\<lparr>metrics_storage = Map.empty, wb_log = [], stdout = []\<rparr>, Some ZeroDivisionError)
   \<and> snd (network_size \<lparr>run_id = ''r1'', run_group = ''g'', run_config = []\<rparr>
        \<lparr>metrics_storage = Map.empty, wb_log = [], stdout = []\<rparr>
        \<lparr>mtype = ''network-size'', metric_name = ''pdr'', x_values = [50, 50, 100],
         y_values = [1, 2, 3], x_axis = ''nodes'', y_axis = ''pdr''\<rparr> Map.empty True) = None
   \<and> (case log_means ''pdr'' []
           (reduce_means (collect_samples
              (buffered \<lparr>metrics_storage = Map.empty, wb_log = [], stdout = []\<rparr> ''pdr'' @
               [\<lparr>mtype = ''network-size'', metric_name = ''pdr'', x_values = [50, 50, 100],
                 y_values = [1, 2, 3], x_axis = ''nodes'', y_axis = ''pdr''\<rparr>]))) of
         (lg', acc, cnt, xs, ys) \<Rightarrow> cnt) = 2"
  using network_size_divisor
    [of "\<lparr>mtype = ''network-size'', metric_name = ''pdr'', x_values = [],
      y_values = [], x_axis = ''nodes'', y_axis = ''pdr''\<rparr>" "[]"
        "\<lparr>metrics_storage = Map.empty, wb_log = [], stdout = []\<rparr>"
        "\<lparr>run_id = ''r1'', run_group = ''g'', run_config = []\<rparr>" Map.empty]
    network_size_divisor
    [of "\<lparr>mtype = ''network-size'', metric_name = ''pdr'', x_values = [50, 50, 100],
         y_values = [1, 2, 3], x_axis = ''nodes'', y_axis = ''pdr''\<rparr>" "[]"
        "\<lparr>metrics_storage = Map.empty, wb_log = [], stdout = []\<rparr>"
        "\<lparr>run_id = ''r1'', run_group = ''g'', run_config = []\<rparr>" Map.empty]
  by (simp add: buffered_def spec_pairs_def)

lemma mset_spec_pairs:
  "mset (spec_pairs ms) = (\<Sum>m\<in>#mset ms. mset (zip (x_values m) (y_values m)))"
  unfolding spec_pairs_def by (induction ms) simp_all

lemma spec_pairs_perm: "mset ms' = mset ms \<Longrightarrow> mset (spec_pairs ms') = mset (spec_pairs ms)"
  by (simp add: mset_spec_pairs)

lemma spec_mean_mset: "mset vs' = mset vs \<Longrightarrow> spec_mean vs' = spec_mean vs"
  unfolding spec_mean_def
  by (metis mset_eq_length sum_mset_sum_list)

lemma spec_pooled_mset: "mset ps' = mset ps \<Longrightarrow> mset (spec_pooled x ps') = mset (spec_pooled x ps)"
  unfolding spec_pooled_def by (metis mset_filter mset_map)

lemma spec_per_x_mean_perm:
  "mset ms' = mset ms \<Longrightarrow> spec_per_x_mean ms' x = spec_per_x_mean ms x"
  unfolding spec_per_x_mean_def
  by (intro spec_mean_mset spec_pooled_mset spec_pairs_perm)

lemma spec_distinct_xs_perm:
  assumes "mset ms' = mset ms"
  shows "mset (spec_distinct_xs (spec_pairs ms')) = mset (spec_distinct_xs (spec_pairs ms))"
proof -
  have "set (spec_pairs ms') = set (spec_pairs ms)"
    using spec_pairs_perm [OF assms] by (rule mset_eq_setD)
  then have "set (spec_distinct_xs (spec_pairs ms')) = set (spec_distinct_xs (spec_pairs ms))"
    by simp
  then show ?thesis
    by (simp only: set_eq_iff_mset_eq_distinct [OF spec_distinct_xs_distinct spec_distinct_xs_distinct])
qed

lemma spec_avg_perm:
  assumes "mset ms' = mset ms"
  shows "spec_mean (map (spec_per_x_mean ms') (spec_distinct_xs (spec_pairs ms'))) =
         spec_mean (map (spec_per_x_mean ms) (spec_distinct_xs (spec_pairs ms)))"
proof -
  have "spec_per_x_mean ms' = spec_per_x_mean ms"
    using spec_per_x_mean_perm [OF assms] by (intro ext)
  moreover have "mset (map (spec_per_x_mean ms) (spec_distinct_xs (spec_pairs ms'))) =
      mset (map (spec_per_x_mean ms) (spec_distinct_xs (spec_pairs ms)))"
    using spec_distinct_xs_perm [OF assms] by (metis mset_map)
  ultimately show ?thesis
    by (simp add: spec_mean_mset)
qed


lemma foldl_add_sum_list: "foldl (\<lambda>s y. s + y) a vs = a + sum_list vs" for a :: real
  by (induction vs arbitrary: a) simp_all

lemma exact_instance:
  "np_mean_rnd (\<lambda>x. x) vs = np_mean vs"
  "fadd_rnd (\<lambda>x. x) a b = fadd a b"
  "py_div_rnd (\<lambda>x. x) a n = py_div a n"
  "reduce_means_rnd (\<lambda>x. x) agg = reduce_means agg"
  "log_means_rnd (\<lambda>x. x) name lg means = log_means name lg means"
proof -
  show m: "np_mean_rnd (\<lambda>x. x) vs = np_mean vs" for vs
    by (cases vs) (simp_all add: foldl_add_sum_list)
  show f: "fadd_rnd (\<lambda>x. x) a b = fadd a b" for a b
    by (cases a; cases b) simp_all
  show "py_div_rnd (\<lambda>x. x) a n = py_div a n"
    by (cases a; cases n) simp_all
  show "reduce_means_rnd (\<lambda>x. x) agg = reduce_means agg"
    by (simp add: reduce_means_rnd_def reduce_means_def m)
  have "log_mean_rnd (\<lambda>x. x) name = log_mean name"
    by (intro ext) (simp add: log_mean_rnd_def log_mean_def f)
  then show "log_means_rnd (\<lambda>x. x) name lg means = log_means name lg means"
    by (simp add: log_means_rnd_def log_means_def)
qed

lemma bit_length_bounds: "2 ^ e \<le> n \<Longrightarrow> n < 2 ^ Suc e \<Longrightarrow> bit_length n = Suc e"
proof (induction e arbitrary: n)
  case 0
  then have "n = 1" by simp
  then show ?case by (simp add: bit_length.simps [of "Suc 0"] bit_length.simps [of 0])
next
  case (Suc e)
  have "2 ^ e \<le> n div 2" "n div 2 < 2 ^ Suc e"
    using Suc.prems by auto
  then have b: "bit_length (n div 2) = Suc e" by (rule Suc.IH)
  have "0 < (2::nat) ^ Suc e" by simp
  then have "n \<noteq> 0" using Suc.prems(1) by linarith
  then show ?case using b by (simp add: bit_length.simps [of n])
qed

lemma round64_zero: "round64 0 = 0"
  by (simp add: round64_def)

lemma round64_minus: "round64 (- x) = - round64 x"
  by (simp add: round64_def Let_def)

lemma round64_binade:
  assumes "2 ^ e \<le> \<bar>x\<bar> * 2 ^ 1074" "\<bar>x\<bar> * 2 ^ 1074 < 2 ^ Suc e" "52 \<le> e"
  shows "round64 x =
     sgn x * (of_int (half_even (\<bar>x\<bar> * 2 ^ 1074 / 2 ^ (e - 52))) * 2 ^ (e - 52) / 2 ^ 1074)"
proof -
  let ?a = "\<bar>x\<bar> * 2 ^ 1074"
  have "(2::real) ^ e = of_int (2 ^ e)" by simp
  then have lo: "2 ^ e \<le> \<lfloor>?a\<rfloor>"
    using assms(1) by (metis le_floor_iff)
  have "(2::real) ^ Suc e = of_int (2 ^ Suc e)" by simp
  then have hi: "\<lfloor>?a\<rfloor> < 2 ^ Suc e"
    using assms(2) by (metis floor_less_iff)
  have "2 ^ e \<le> nat \<lfloor>?a\<rfloor>" "nat \<lfloor>?a\<rfloor> < 2 ^ Suc e"
    using lo hi by (simp_all add: le_nat_iff nat_less_iff)
  then have "bit_length (nat \<lfloor>?a\<rfloor>) = Suc e" by (rule bit_length_bounds)
  then have "bit_length (nat \<lfloor>?a\<rfloor>) - 53 = e - 52" by simp
  then show ?thesis
    by (simp add: round64_def Let_def)
qed


lemma round64_ge1:
  assumes "2 ^ p \<le> \<bar>x\<bar>" "\<bar>x\<bar> < 2 ^ Suc p"
  shows "round64 x = sgn x * (of_int (half_even (\<bar>x\<bar> * 2 ^ 52 / 2 ^ p)) * 2 ^ p / 2 ^ 52)"
proof -
  define c :: real where "c = 2 ^ 1022"
  have c: "0 < c" by (simp add: c_def)
  have big: "(2::real) ^ 1074 = 2 ^ 52 * c"
    unfolding c_def by (simp only: flip: power_add) simp
  have e: "(2::real) ^ (p + 1074) = 2 ^ p * 2 ^ 1074"
    and e1: "(2::real) ^ Suc (p + 1074) = 2 ^ Suc p * 2 ^ 1074"
    and s: "(2::real) ^ (p + 1074 - 52) = 2 ^ p * c"
    unfolding c_def by (simp_all only: flip: power_add power_Suc) simp_all
  have lo: "2 ^ (p + 1074) \<le> \<bar>x\<bar> * 2 ^ 1074"
    unfolding e using assms(1) by (intro mult_right_mono) simp_all
  have hi: "\<bar>x\<bar> * 2 ^ 1074 < 2 ^ Suc (p + 1074)"
    unfolding e1 using assms(2) by (intro mult_strict_right_mono) simp_all
  have "round64 x =
     sgn x * (of_int (half_even (\<bar>x\<bar> * 2 ^ 1074 / 2 ^ (p + 1074 - 52)))
              * 2 ^ (p + 1074 - 52) / 2 ^ 1074)"
    by (rule round64_binade [OF lo hi]) simp
  also have "\<bar>x\<bar> * 2 ^ 1074 / 2 ^ (p + 1074 - 52) = \<bar>x\<bar> * 2 ^ 52 / 2 ^ p"
    unfolding s big using c by (simp add: field_simps)
  also have "of_int (half_even (\<bar>x\<bar> * 2 ^ 52 / 2 ^ p)) * 2 ^ (p + 1074 - 52) / 2 ^ 1074 =
      (of_int (half_even (\<bar>x\<bar> * 2 ^ 52 / 2 ^ p)) * 2 ^ p / 2 ^ 52 :: real)"
    unfolding s big using c by (simp add: field_simps)
  finally show ?thesis .
qed

lemma round64_lt1:
  assumes "1 \<le> \<bar>x\<bar> * 2 ^ q" "\<bar>x\<bar> * 2 ^ q < 2" "q \<le> 1022"
  shows "round64 x = sgn x * (of_int (half_even (\<bar>x\<bar> * 2 ^ 52 * 2 ^ q)) / (2 ^ 52 * 2 ^ q))"
proof -
  define c :: real where "c = 2 ^ (1022 - q)"
  have c: "0 < c" by (simp add: c_def)
  have "(1074::nat) = 52 + q + (1022 - q)" using assms(3) by simp
  then have "(2::real) ^ 1074 = 2 ^ (52 + q + (1022 - q))" by simp
  then have big: "(2::real) ^ 1074 = 2 ^ 52 * 2 ^ q * c"
    unfolding c_def by (simp only: power_add)
  have s: "(2::real) ^ (1074 - q - 52) = c"
    unfolding c_def using assms(3) by simp
  have e: "(2::real) ^ (1074 - q) = 2 ^ 52 * c"
  proof -
    have "1074 - q = 52 + (1022 - q)" using assms(3) by simp
    then show ?thesis unfolding c_def by (simp only: power_add)
  qed
  have e1: "(2::real) ^ Suc (1074 - q) = 2 * (2 ^ 52 * c)"
    using e by simp
  have lo: "2 ^ (1074 - q) \<le> \<bar>x\<bar> * 2 ^ 1074"
  proof -
    have "1 * (2 ^ 52 * c) \<le> (\<bar>x\<bar> * 2 ^ q) * (2 ^ 52 * c)"
      using assms(1) c by (intro mult_right_mono) simp_all
    then show ?thesis unfolding e big by (simp add: mult_ac)
  qed
  have hi: "\<bar>x\<bar> * 2 ^ 1074 < 2 ^ Suc (1074 - q)"
  proof -
    have "(\<bar>x\<bar> * 2 ^ q) * (2 ^ 52 * c) < 2 * (2 ^ 52 * c)"
      using assms(2) c by (intro mult_strict_right_mono) simp_all
    then show ?thesis unfolding e1 big by (simp add: mult_ac)
  qed
  have "round64 x =
     sgn x * (of_int (half_even (\<bar>x\<bar> * 2 ^ 1074 / 2 ^ (1074 - q - 52)))
              * 2 ^ (1074 - q - 52) / 2 ^ 1074)"
    using assms(3) by (intro round64_binade [OF lo hi]) simp
  also have "\<bar>x\<bar> * 2 ^ 1074 / 2 ^ (1074 - q - 52) = \<bar>x\<bar> * 2 ^ 52 * 2 ^ q"
    unfolding s big using c by (simp add: field_simps)
  also have "of_int (half_even (\<bar>x\<bar> * 2 ^ 52 * 2 ^ q)) * 2 ^ (1074 - q - 52) / 2 ^ 1074 =
      (of_int (half_even (\<bar>x\<bar> * 2 ^ 52 * 2 ^ q)) / (2 ^ 52 * 2 ^ q) :: real)"
    unfolding s big using c by (simp add: field_simps)
  finally show ?thesis .
qed


lemma round64_values:
  "round64 10000000000000000 = 10000000000000000"
  "round64 (- 10000000000000000) = - 10000000000000000"
  "round64 10000000000000001 = 10000000000000000"
  "round64 1 = 1"
  "round64 (1 / 3) = 6004799503160661 / 18014398509481984"
proof -
  show a: "round64 10000000000000000 = 10000000000000000"
    using round64_ge1 [of 53 10000000000000000] by (simp add: half_even_def)
  show "round64 (- 10000000000000000) = - 10000000000000000"
    using a by (simp only: round64_minus)
  show "round64 10000000000000001 = 10000000000000000"
    using round64_ge1 [of 53 10000000000000001] by (simp add: half_even_def)
  show "round64 1 = 1"
    using round64_ge1 [of 0 1] by (simp add: half_even_def)
  show "round64 (1 / 3) = 6004799503160661 / 18014398509481984"
    using round64_lt1 [of "1 / 3" 2] by (simp add: half_even_def)
qed

lemma py_div_rnd_pos: "0 < n \<Longrightarrow> py_div_rnd rnd (Num a) n = Inr (Num (rnd (a / real n)))"
  by (cases n) simp_all

lemma log_means_rnd_count:
  "(case foldl (log_mean_rnd rnd name) (lg, acc, c, xs, ys) agg of
      (l, a, cnt, xs', ys') \<Rightarrow> cnt) = c + length agg"
  by (induction agg arbitrary: lg acc c xs ys) (simp_all add: log_mean_rnd_def split_beta)

lemma flush_count:
  "(case log_means_rnd rnd name lg (reduce_means_rnd rnd (collect_samples ms)) of
      (l, a, cnt, xs, ys) \<Rightarrow> cnt) = length (spec_distinct_xs (spec_pairs ms))"
  unfolding log_means_rnd_def log_means_rnd_count
  by (simp add: reduce_means_rnd_def collect_samples_grouped)

lemma py_div_rnd_raises: "py_div_rnd rnd a n = Inl ZeroDivisionError \<longleftrightarrow> n = 0"
  by (cases a; cases n) simp_all

lemma flush_average_raises:
  "flush_average rnd name ms = Inl ZeroDivisionError \<longleftrightarrow> spec_pairs ms = []"
proof -
  obtain l a cnt xs ys where r:
    "log_means_rnd rnd name [] (reduce_means_rnd rnd (collect_samples ms)) = (l, a, cnt, xs, ys)"
    by (metis prod_cases5)
  have "cnt = length (spec_distinct_xs (spec_pairs ms))"
    using flush_count [of rnd name "[]" ms] r by simp
  then show ?thesis
    by (simp add: flush_average_def r py_div_rnd_raises)
qed

lemma map_of_collect_samples:
  "map_of (collect_samples ms) x =
     (if x \<in> fst ` set (spec_pairs ms) then Some (spec_pooled x (spec_pairs ms)) else None)"
  by (simp add: collect_samples_grouped map_of_map_restrict restrict_map_def)

text \<open>
  Claim C9, as the code has it.  Whenever two flushes reduce permutations of one list of
  records, the grouping is the same: the dict has the same keys, every key holds the same
  samples as a multiset, so the arithmetic means of the pooled samples and their overall
  mean, taken exactly, coincide; and whatever the rounding of the arithmetic, the same
  number of scalars is written and the division raises in the one case exactly when it
  raises in the other.  The doubles logged are sums taken in record order.
\<close>

theorem flush_grouping_order_insensitive:
  assumes "mset (buffered w' (metric_name m') @ [m']) = mset (buffered w (metric_name m) @ [m])"
  shows "set (map fst (collect_samples (buffered w' (metric_name m') @ [m']))) =
         set (map fst (collect_samples (buffered w (metric_name m) @ [m])))
       \<and> (\<forall>x. map_option mset (map_of (collect_samples (buffered w' (metric_name m') @ [m'])) x) =
               map_option mset (map_of (collect_samples (buffered w (metric_name m) @ [m])) x))
       \<and> (\<forall>x. spec_per_x_mean (buffered w' (metric_name m') @ [m']) x =
               spec_per_x_mean (buffered w (metric_name m) @ [m]) x)
       \<and> spec_mean (map (spec_per_x_mean (buffered w' (metric_name m') @ [m']))
                     (spec_distinct_xs (spec_pairs (buffered w' (metric_name m') @ [m'])))) =
         spec_mean (map (spec_per_x_mean (buffered w (metric_name m) @ [m]))
                     (spec_distinct_xs (spec_pairs (buffered w (metric_name m) @ [m]))))
       \<and> (case log_means_rnd rnd (metric_name m') lg'
                 (reduce_means_rnd rnd (collect_samples (buffered w' (metric_name m') @ [m']))) of
            (l, acc, cnt, xs, ys) \<Rightarrow> cnt) =
         (case log_means_rnd rnd (metric_name m) lg
                 (reduce_means_rnd rnd (collect_samples (buffered w (metric_name m) @ [m]))) of
            (l, acc, cnt, xs, ys) \<Rightarrow> cnt)
       \<and> (flush_average rnd (metric_name m') (buffered w' (metric_name m') @ [m']) =
            Inl ZeroDivisionError) =
         (flush_average rnd (metric_name m) (buffered w (metric_name m) @ [m]) =
            Inl ZeroDivisionError)"
proof -
  let ?ms' = "buffered w' (metric_name m') @ [m']" and ?ms = "buffered w (metric_name m) @ [m]"
  have ps: "mset (spec_pairs ?ms') = mset (spec_pairs ?ms)"
    by (rule spec_pairs_perm [OF assms])
  have sps: "set (spec_pairs ?ms') = set (spec_pairs ?ms)"
    using ps by (rule mset_eq_setD)
  have keys: "set (map fst (collect_samples ?ms')) = set (map fst (collect_samples ?ms))"
    using sps by (simp add: collect_samples_grouped comp_def)
  have pooled: "map_option mset (map_of (collect_samples ?ms') x) =
      map_option mset (map_of (collect_samples ?ms) x)" for x
    using sps spec_pooled_mset [OF ps, of x] by (simp add: map_of_collect_samples)
  have means: "spec_per_x_mean ?ms' x = spec_per_x_mean ?ms x" for x
    by (rule spec_per_x_mean_perm [OF assms])
  have avg: "spec_mean (map (spec_per_x_mean ?ms') (spec_distinct_xs (spec_pairs ?ms'))) =
      spec_mean (map (spec_per_x_mean ?ms) (spec_distinct_xs (spec_pairs ?ms)))"
    by (rule spec_avg_perm [OF assms])
  have "length (spec_distinct_xs (spec_pairs ?ms')) = length (spec_distinct_xs (spec_pairs ?ms))"
    using spec_distinct_xs_perm [OF assms] by (rule mset_eq_length)
  then have cnt: "(case log_means_rnd rnd (metric_name m') lg'
                 (reduce_means_rnd rnd (collect_samples ?ms')) of
            (l, acc, cnt, xs, ys) \<Rightarrow> cnt) =
         (case log_means_rnd rnd (metric_name m) lg
                 (reduce_means_rnd rnd (collect_samples ?ms)) of
            (l, acc, cnt, xs, ys) \<Rightarrow> cnt)"
    by (simp only: flush_count)
  have "spec_pairs ?ms' = [] \<longleftrightarrow> spec_pairs ?ms = []"
    using ps by (metis mset_zero_iff)
  then have err: "(flush_average rnd (metric_name m') ?ms' = Inl ZeroDivisionError) =
         (flush_average rnd (metric_name m) ?ms = Inl ZeroDivisionError)"
    by (simp only: flush_average_raises)
  show ?thesis
    using keys pooled means avg cnt err by blast
qed


theorem flush_grouping_order_insensitive_witness:
  "set (map fst (collect_samples
      [\<lparr>mtype = ''network-size'', metric_name = ''m'', x_values = [1, 2],
         y_values = [4, 6], x_axis = ''n'', y_axis = ''v''\<rparr>,
       \<lparr>mtype = ''network-size'', metric_name = ''m'', x_values = [2],
         y_values = [8], x_axis = ''n'', y_axis = ''v''\<rparr>])) =
   set (map fst (collect_samples
      [\<lparr>mtype = ''network-size'', metric_name = ''m'', x_values = [2],
         y_values = [8], x_axis = ''n'', y_axis = ''v''\<rparr>,
       \<lparr>mtype = ''network-size'', metric_name = ''m'', x_values = [1, 2],
         y_values = [4, 6], x_axis = ''n'', y_axis = ''v''\<rparr>]))
   \<and> map_option mset (map_of (collect_samples
      [\<lparr>mtype = ''network-size'', metric_name = ''m'', x_values = [1, 2],
         y_values = [4, 6], x_axis = ''n'', y_axis = ''v''\<rparr>,
       \<lparr>mtype = ''network-size'', metric_name = ''m'', x_values = [2],
         y_values = [8], x_axis = ''n'', y_axis = ''v''\<rparr>]) 2) =
     map_option mset (map_of (collect_samples
      [\<lparr>mtype = ''network-size'', metric_name = ''m'', x_values = [2],
         y_values = [8], x_axis = ''n'', y_axis = ''v''\<rparr>,
       \<lparr>mtype = ''network-size'', metric_name = ''m'', x_values = [1, 2],
         y_values = [4, 6], x_axis = ''n'', y_axis = ''v''\<rparr>]) 2)
   \<and> spec_per_x_mean
      [\<lparr>mtype = ''network-size'', metric_name = ''m'', x_values = [1, 2],
         y_values = [4, 6], x_axis = ''n'', y_axis = ''v''\<rparr>,
       \<lparr>mtype = ''network-size'', metric_name = ''m'', x_values = [2],
         y_values = [8], x_axis = ''n'', y_axis = ''v''\<rparr>] 2 =
     spec_per_x_mean
      [\<lparr>mtype = ''network-size'', metric_name = ''m'', x_values = [2],
         y_values = [8], x_axis = ''n'', y_axis = ''v''\<rparr>,
       \<lparr>mtype = ''network-size'', metric_name = ''m'', x_values = [1, 2],
         y_values = [4, 6], x_axis = ''n'', y_axis = ''v''\<rparr>] 2
   \<and> (flush_average round64 ''m''
      [\<lparr>mtype = ''network-size'', metric_name = ''m'', x_values = [1, 2],
         y_values = [4, 6], x_axis = ''n'', y_axis = ''v''\<rparr>,
       \<lparr>mtype = ''network-size'', metric_name = ''m'', x_values = [2],
         y_values = [8], x_axis = ''n'', y_axis = ''v''\<rparr>] = Inl ZeroDivisionError) =
     (flush_average round64 ''m''
      [\<lparr>mtype = ''network-size'', metric_name = ''m'', x_values = [2],
         y_values = [8], x_axis = ''n'', y_axis = ''v''\<rparr>,
       \<lparr>mtype = ''network-size'', metric_name = ''m'', x_values = [1, 2],
         y_values = [4, 6], x_axis = ''n'', y_axis = ''v''\<rparr>] = Inl ZeroDivisionError)"
proof -
  let ?a = "\<lparr>mtype = ''network-size'', metric_name = ''m'', x_values = [1, 2],
         y_values = [4, 6], x_axis = ''n'', y_axis = ''v''\<rparr>"
  let ?b = "\<lparr>mtype = ''network-size'', metric_name = ''m'', x_values = [2],
         y_values = [8], x_axis = ''n'', y_axis = ''v''\<rparr>"
  let ?w' = "\<lparr>metrics_storage = [''m'' \<mapsto> [?a]], wb_log = [], stdout = []\<rparr>"
  let ?w = "\<lparr>metrics_storage = [''m'' \<mapsto> [?b]], wb_log = [], stdout = []\<rparr>"
  have h: "mset (buffered ?w' (metric_name ?b) @ [?b]) = mset (buffered ?w (metric_name ?a) @ [?a])"
    by (simp add: buffered_def add.commute)
  have b: "buffered ?w' ''m'' = [?a]" "buffered ?w ''m'' = [?b]"
    by (simp_all add: buffered_def)
  show ?thesis
    using flush_grouping_order_insensitive [OF h, where rnd = round64 and lg = "[]" and lg' = "[]"]
    by (simp add: b)
qed

text \<open>
  Three records with one sample each, in two orders.  In doubles \<open>1e16 + 1\<close> is \<open>1e16\<close>, so
  adding the per-\<open>x\<close> means in the order \<open>1e16, 1, -1e16\<close> gives the average \<open>0\<close>, and in the
  order \<open>1e16, -1e16, 1\<close> the double nearest to \<open>1/3\<close>: the overall average depends on the
  order of the records.
\<close>

theorem flush_average_order_counterexample:
  "mset [\<lparr>mtype = ''network-size'', metric_name = ''m'', x_values = [1],
            y_values = [10000000000000000], x_axis = ''n'', y_axis = ''v''\<rparr>,
          \<lparr>mtype = ''network-size'', metric_name = ''m'', x_values = [3],
            y_values = [- 10000000000000000], x_axis = ''n'', y_axis = ''v''\<rparr>,
          \<lparr>mtype = ''network-size'', metric_name = ''m'', x_values = [2],
            y_values = [1], x_axis = ''n'', y_axis = ''v''\<rparr>] =
   mset [\<lparr>mtype = ''network-size'', metric_name = ''m'', x_values = [1],
            y_values = [10000000000000000], x_axis = ''n'', y_axis = ''v''\<rparr>,
          \<lparr>mtype = ''network-size'', metric_name = ''m'', x_values = [2],
            y_values = [1], x_axis = ''n'', y_axis = ''v''\<rparr>,
          \<lparr>mtype = ''network-size'', metric_name = ''m'', x_values = [3],
            y_values = [- 10000000000000000], x_axis = ''n'', y_axis = ''v''\<rparr>]
   \<and> flush_average round64 ''m''
        [\<lparr>mtype = ''network-size'', metric_name = ''m'', x_values = [1],
            y_values = [10000000000000000], x_axis = ''n'', y_axis = ''v''\<rparr>,
          \<lparr>mtype = ''network-size'', metric_name = ''m'', x_values = [2],
            y_values = [1], x_axis = ''n'', y_axis = ''v''\<rparr>,
          \<lparr>mtype = ''network-size'', metric_name = ''m'', x_values = [3],
            y_values = [- 10000000000000000], x_axis = ''n'', y_axis = ''v''\<rparr>] =
      Inr (Num 0)
   \<and> flush_average round64 ''m''
        [\<lparr>mtype = ''network-size'', metric_name = ''m'', x_values = [1],
            y_values = [10000000000000000], x_axis = ''n'', y_axis = ''v''\<rparr>,
          \<lparr>mtype = ''network-size'', metric_name = ''m'', x_values = [3],
            y_values = [- 10000000000000000], x_axis = ''n'', y_axis = ''v''\<rparr>,
          \<lparr>mtype = ''network-size'', metric_name = ''m'', x_values = [2],
            y_values = [1], x_axis = ''n'', y_axis = ''v''\<rparr>] =
      Inr (Num (6004799503160661 / 18014398509481984))"
  by (simp add: flush_average_def collect_samples_def reduce_means_rnd_def log_means_rnd_def
      log_mean_rnd_def py_div_rnd_pos round64_values round64_zero)

section \<open>Properties of the invoker and the dispatch\<close>

lemma foldl_append_token:
  "foldl (\<lambda>cmd (k, v). cmd @ [g k v]) c xs = c @ map (\<lambda>(k, v). g k v) xs"
  by (induction xs arbitrary: c) (simp_all add: split_beta)

lemma run_single_experiment_cmd:
  "run_single_experiment ev t config m l a ooc =
     ([''bash'', experiment_script ev]
      @ [m]
      @ (case l of None \<Rightarrow> [] | Some p \<Rightarrow> [p])
      @ (case a of None \<Rightarrow> [] | Some p \<Rightarrow> [p])
      @ [exp_args ev]
      @ map (\<lambda>(k, v). ''--'' @ k @ ''='' @ py_str v) config
      @ map (\<lambda>(k, v). ''--'' @ k @ ''='' @ py_str v) ooc, t)"
  unfolding run_single_experiment_def Let_def foldl_append_token
  by (simp split: option.splits)

text \<open>
  Claim C5.  The command \<open>run_single_experiment\<close> executes is, after \<open>bash\<close> and the script,
  the metrics directory, then the log path if present, then the artifacts directory if
  present, then the static arguments, then one \<open>--key=value\<close> token per configuration entry
  and per extra run-scoped entry, in that order.
\<close>

theorem run_single_experiment_argument_order:
  "run_single_experiment ev t config m l a ooc =
     ([''bash'', experiment_script ev]
      @ [m]
      @ (case l of None \<Rightarrow> [] | Some p \<Rightarrow> [p])
      @ (case a of None \<Rightarrow> [] | Some p \<Rightarrow> [p])
      @ [exp_args ev]
      @ map (\<lambda>(k, v). ''--'' @ k @ ''='' @ py_str v) config
      @ map (\<lambda>(k, v). ''--'' @ k @ ''='' @ py_str v) ooc, t)"
proof (cases l; cases a)
qed (simp_all add: run_single_experiment_cmd)

theorem run_single_experiment_argument_order_witness:
  "run_single_experiment \<lparr>experiment_script = ''sim.sh'', exp_args = ''--quiet''\<rparr> 12
     [(''alpha'', PInt 3), (''mode'', PStr ''fast'')] ''m/g_run_a'' (Some ''l/g_run_a.log'') None
     [(''run'', PInt 2)] =
   ([''bash'', ''sim.sh'', ''m/g_run_a'', ''l/g_run_a.log'', ''--quiet'',
     ''--alpha=3'', ''--mode=fast'', ''--run=2''], 12)"
  using run_single_experiment_argument_order
    [of "\<lparr>experiment_script = ''sim.sh'', exp_args = ''--quiet''\<rparr>" 12
        "[(''alpha'', PInt 3), (''mode'', PStr ''fast'')]" "''m/g_run_a''"
        "Some ''l/g_run_a.log''" None "[(''run'', PInt 2)]"]
  by (simp add: str_int_def)

lemma metrics_loop_seq:
  "metrics_loop f r a n i ds w =
     seq_calls f r a (zip ds (map (\<lambda>j. int j = int n - 1) [i..<i + length ds])) w"
proof (induction ds arbitrary: i w)
  case Nil
  show ?case by simp
next
  case (Cons d ds)
  have "[i..<i + length (d # ds)] = i # [Suc i..<Suc i + length ds]"
    by (subst upt_rec) simp
  then show ?case
    using Cons by (simp split: prod.splits option.splits)
qed

lemma seq_calls_recorder:
  "seq_calls (\<lambda>r w d a flag. (w @ [(d, flag)], None)) r a cs w = (w @ cs, None)"
  by (induction cs arbitrary: w) auto

lemma terminal_flags:
  "map (\<lambda>j. int j = int (length dirs) - 1) [0..<length dirs] =
   map (\<lambda>i. Suc i = length dirs) [0..<length dirs]"
  by (rule map_cong) auto

lemma run_parse_functions_metrics_first:
  "run_parse_functions r w dirs logs arts (Some f) ma lf la af aa =
     (case seq_calls f r ma (zip dirs (map (\<lambda>i. Suc i = length dirs) [0..<length dirs])) w of
        (w1, Some err) \<Rightarrow> (w1, Some err)
      | (w1, None) \<Rightarrow> run_parse_functions r w1 [] logs arts None ma lf la af aa)"
  using metrics_loop_seq [of f r ma "length dirs" 0 dirs w]
  by (simp add: run_parse_functions_def terminal_flags split: prod.splits option.splits)

text \<open>
  Claim C4.  Given a metrics routine, the dispatch calls it once per metrics directory, in
  list order, passing \<open>True\<close> as terminal signal exactly at the last position, before
  anything else; a routine that records its arguments receives exactly these pairs; for a
  single directory the only call is terminal.
\<close>

theorem run_parse_functions_terminal_flag:
  "run_parse_functions r w dirs logs arts (Some f) ma lf la af aa =
     (case seq_calls f r ma (zip dirs (map (\<lambda>i. Suc i = length dirs) [0..<length dirs])) w of
        (w1, Some err) \<Rightarrow> (w1, Some err)
      | (w1, None) \<Rightarrow> run_parse_functions r w1 [] logs arts None ma lf la af aa)
   \<and> run_parse_functions r [] dirs [] []
       (Some (\<lambda>r w d a flag. (w @ [(d, flag)], None))) ma None la None aa =
     (zip dirs (map (\<lambda>i. Suc i = length dirs) [0..<length dirs]), None)
   \<and> run_parse_functions r w [d] [] [] (Some f) ma None la None aa = f r w d ma True"
proof -
  have one: "run_parse_functions r w [d] [] [] (Some f) ma None la None aa = f r w d ma True"
    by (simp add: run_parse_functions_def split: prod.splits option.splits)
  have rest: "run_parse_functions r v [] [] [] None ma None la None aa = (v, None)"
    for v :: "(string \<times> bool) list"
    by (simp add: run_parse_functions_def)
  show ?thesis
    using one run_parse_functions_metrics_first [of r w dirs logs arts f ma lf la af aa]
    by (simp add: run_parse_functions_metrics_first [of r "[]"] seq_calls_recorder rest)
qed

theorem run_parse_functions_terminal_flag_witness:
  "run_parse_functions \<lparr>run_id = ''r1'', run_group = ''g'', run_config = []\<rparr> []
     [''m/g_run_r1_0'', ''m/g_run_r1_1'', ''m/g_run_r1_2''] [] []
     (Some (\<lambda>r w d a flag. (w @ [(d, flag)], None))) Map.empty None Map.empty None Map.empty =
   ([(''m/g_run_r1_0'', False), (''m/g_run_r1_1'', False), (''m/g_run_r1_2'', True)], None)"
  using run_parse_functions_terminal_flag
    [of "\<lparr>run_id = ''r1'', run_group = ''g'', run_config = []\<rparr>" "[]"
        "[''m/g_run_r1_0'', ''m/g_run_r1_1'', ''m/g_run_r1_2'']"
        "[]" "[]" "\<lambda>r w d a flag. (w @ [(d, flag)], None)" Map.empty None Map.empty None
        Map.empty "''x''", THEN conjunct2, THEN conjunct1]
  by (simp add: upt_conv_Cons del: upt_Suc)

section \<open>Properties of the default metrics parser\<close>

lemma buffered_stdout [simp]: "buffered (w\<lparr>stdout := s\<rparr>) n = buffered w n"
  by (simp add: buffered_def)

lemma network_size_stdout:
  "network_size r (w\<lparr>stdout := s\<rparr>) m a l =
     (case network_size r w m a l of (w', e) \<Rightarrow> (w'\<lparr>stdout := s\<rparr>, e))"
proof (cases l)
  case True
  show ?thesis
    by (cases "spec_pairs (buffered w (metric_name m) @ [m]) = []")
      (simp_all add: True network_size_flush_empty network_size_flush_nonempty)
next
  case False
  then show ?thesis by (simp add: network_size_defer)
qed

lemma observable_stdout [simp]:
  "observable (w\<lparr>stdout := s\<rparr>, e) = observable (w, e)"
  by (simp add: observable_def)

lemma parse_files_stdout:
  "observable (parse_files r d a l es (w\<lparr>stdout := s\<rparr>)) = observable (parse_files r d a l es w)"
proof (induction es arbitrary: w s)
  case Nil
  show ?case by simp
next
  case (Cons e es)
  show ?case
  proof (cases "\<not> regular e \<or> \<not> endswith (join d (fname e)) ''.yaml''")
    case True
    then show ?thesis using Cons [where w = w and s = s] by (simp add: Let_def)
  next
    case elig: False
    show ?thesis
    proof (cases "metric_type_handling (mtype (parsed e))")
      case None
      then show ?thesis
        using elig
          Cons [where w = w and s = "s @ [unsupported_warning (join d (fname e)) (mtype (parsed e))]"]
          Cons [where w = w
            and s = "stdout w @ [unsupported_warning (join d (fname e)) (mtype (parsed e))]"]
        by (simp add: Let_def)
    next
      case (Some h)
      obtain w' err where res: "network_size r w (parsed e) a l = (w', err)"
        by (cases "network_size r w (parsed e) a l")
      have h: "h = NetworkSize" by (cases h)
      show ?thesis
        using elig Some Cons [where w = w' and s = s]
        by (cases err) (simp_all add: Let_def h network_size_stdout res)
    qed
  qed
qed

lemma parse_files_append:
  "parse_files r d a l (es1 @ es2) w =
     (case parse_files r d a l es1 w of
        (w', Some err) \<Rightarrow> (w', Some err)
      | (w', None) \<Rightarrow> parse_files r d a l es2 w')"
  by (induction es1 arbitrary: w) (auto simp add: Let_def split: prod.splits option.splits)

text \<open>
  Claim C8.  A regular \<open>.yaml\<close> file whose type tag has no handler is skipped: on its own it
  only prints a warning and raises nothing, and a directory that holds it is parsed, as far
  as the storage, the tracked run and the exception go, exactly as the directory without
  it, so every other file is processed as before.
\<close>

theorem unsupported_type_skipped:
  "regular e \<and> endswith (join d (fname e)) ''.yaml''
     \<and> metric_type_handling (mtype (parsed e)) = None \<longrightarrow>
   parse_files r d a l [e] w =
     (w\<lparr>stdout := stdout w @ [unsupported_warning (join d (fname e)) (mtype (parsed e))]\<rparr>, None)
   \<and> observable (default_parse_metrics (\<lambda>p. es1 @ [e] @ es2) r w d a l) =
     observable (default_parse_metrics (\<lambda>p. es1 @ es2) r w d a l)"
proof (intro impI conjI)
  assume h: "regular e \<and> endswith (join d (fname e)) ''.yaml''
     \<and> metric_type_handling (mtype (parsed e)) = None"
  then show one: "parse_files r d a l [e] w =
     (w\<lparr>stdout := stdout w @ [unsupported_warning (join d (fname e)) (mtype (parsed e))]\<rparr>, None)"
    by (simp add: Let_def)
  have step: "parse_files r d a l (e # es2) v =
      parse_files r d a l es2
        (v\<lparr>stdout := stdout v @ [unsupported_warning (join d (fname e)) (mtype (parsed e))]\<rparr>)" for v
    using h by (simp add: Let_def)
  obtain w1 err where res: "parse_files r d a l es1 w = (w1, err)"
    by (cases "parse_files r d a l es1 w")
  show "observable (default_parse_metrics (\<lambda>p. es1 @ [e] @ es2) r w d a l) =
     observable (default_parse_metrics (\<lambda>p. es1 @ es2) r w d a l)"
  proof (cases err)
    case None
    then show ?thesis
      using res by (simp add: default_parse_metrics_def parse_files_append step parse_files_stdout
          del: parse_files.simps)
  next
    case (Some x)
    then show ?thesis
      using res by (simp add: default_parse_metrics_def parse_files_append)
  qed
qed


theorem unsupported_type_skipped_witness:
  "parse_files \<lparr>run_id = ''r1'', run_group = ''g'', run_config = []\<rparr> ''m'' Map.empty True
     [\<lparr>fname = ''b.yaml'', regular = True,
       parsed = \<lparr>mtype = ''latency-cdf'', metric_name = ''lat'', x_values = [1],
                 y_values = [2], x_axis = ''t'', y_axis = ''p''\<rparr>\<rparr>]
     \<lparr>metrics_storage = Map.empty, wb_log = [], stdout = []\<rparr> =
     (\<lparr>metrics_storage = Map.empty, wb_log = [],
       stdout = [unsupported_warning ''m/b.yaml'' ''latency-cdf'']\<rparr>, None)
   \<and> observable (default_parse_metrics
        (\<lambda>p. [\<lparr>fname = ''a.yaml'', regular = True,
                 parsed = \<lparr>mtype = ''network-size'', metric_name = ''pdr'', x_values = [50],
                           y_values = [1], x_axis = ''nodes'', y_axis = ''pdr''\<rparr>\<rparr>] @
              [\<lparr>fname = ''b.yaml'', regular = True,
                parsed = \<lparr>mtype = ''latency-cdf'', metric_name = ''lat'', x_values = [1],
                          y_values = [2], x_axis = ''t'', y_axis = ''p''\<rparr>\<rparr>] @
              [\<lparr>fname = ''c.yaml'', regular = True,
                parsed = \<lparr>mtype = ''network-size'', metric_name = ''thr'', x_values = [50],
                          y_values = [3], x_axis = ''nodes'', y_axis = ''thr''\<rparr>\<rparr>])
        \<lparr>run_id = ''r1'', run_group = ''g'', run_config = []\<rparr>
        \<lparr>metrics_storage = Map.empty, wb_log = [], stdout = []\<rparr> ''m'' Map.empty True) =
     (Map.empty,
      [Scalar ''pdr_at_50'' (Num 1) False, Scalar ''pdr_avg'' (Num 1) True,
       Scalar ''thr_at_50'' (Num 3) False, Scalar ''thr_avg'' (Num 3) True], None)"
proof -
  let ?r = "\<lparr>run_id = ''r1'', run_group = ''g'', run_config = []\<rparr>"
  let ?w = "\<lparr>metrics_storage = Map.empty, wb_log = [], stdout = []\<rparr>"
  let ?a = "\<lparr>fname = ''a.yaml'', regular = True,
                 parsed = \<lparr>mtype = ''network-size'', metric_name = ''pdr'', x_values = [50],
                           y_values = [1], x_axis = ''nodes'', y_axis = ''pdr''\<rparr>\<rparr>"
  let ?b = "\<lparr>fname = ''b.yaml'', regular = True,
                parsed = \<lparr>mtype = ''latency-cdf'', metric_name = ''lat'', x_values = [1],
                          y_values = [2], x_axis = ''t'', y_axis = ''p''\<rparr>\<rparr>"
  let ?c = "\<lparr>fname = ''c.yaml'', regular = True,
                parsed = \<lparr>mtype = ''network-size'', metric_name = ''thr'', x_values = [50],
                          y_values = [3], x_axis = ''nodes'', y_axis = ''thr''\<rparr>\<rparr>"
  have h: "regular ?b \<and> endswith (join ''m'' (fname ?b)) ''.yaml''
     \<and> metric_type_handling (mtype (parsed ?b)) = None"
    by (simp add: endswith_def join_def metric_type_handling_def)
  note t = unsupported_type_skipped [where e = ?b and d = "''m''" and r = ?r and a = Map.empty
      and l = True and w = ?w and ?es1.0 = "[?a]" and ?es2.0 = "[?c]", rule_format, OF h]
  have j: "join ''m'' ''b.yaml'' = ''m/b.yaml''" by (simp add: join_def)
  have rest: "observable (default_parse_metrics (\<lambda>p. [?a] @ [?c]) ?r ?w ''m'' Map.empty True) =
     (Map.empty,
      [Scalar ''pdr_at_50'' (Num 1) False, Scalar ''pdr_avg'' (Num 1) True,
       Scalar ''thr_at_50'' (Num 3) False, Scalar ''thr_avg'' (Num 3) True], None)"
    by (simp add: default_parse_metrics_def Let_def endswith_def join_def metric_type_handling_def
        network_size_flush_nonempty buffered_def spec_pairs_def spec_flush_scalars_def
        spec_distinct_xs_def spec_per_x_mean_def spec_pooled_def spec_mean_def chart_entry_def
        str_int_def observable_def)
  show ?thesis
    using t rest by (simp add: j del: parse_files.simps)
qed

section \<open>Properties of the sweep wrapper\<close>



lemma invocations_append [simp]: "invocations (xs @ ys) = invocations xs @ invocations ys"
  by (induction xs rule: invocations.induct) simp_all

lemma finishes_append [simp]: "finishes (xs @ ys) = finishes xs + finishes ys"
  by (induction xs rule: finishes.induct) simp_all

lemma logged_append [simp]: "logged n (xs @ ys) = logged n xs @ logged n ys"
  by (induction n xs rule: logged.induct) simp_all

lemma invocations_MakeDirs [simp]: "invocations (map MakeDirs ps) = []"
  by (induction ps) simp_all

lemma finishes_MakeDirs [simp]: "finishes (map MakeDirs ps) = 0"
  by (induction ps) simp_all

lemma logged_MakeDirs [simp]: "logged n (map MakeDirs ps) = []"
  by (induction ps) simp_all















section \<open>Properties of the scheduler and start-up\<close>

lemma spawn_loop_literal:
  "gid \<noteq> PNone \<Longrightarrow> gid \<noteq> PStr ''auto'' \<Longrightarrow>
   foldl (spawn_step gen) (gid, k, ts) xs =
     (gid, k, ts @ map (\<lambda>i. \<lparr>task_group = gid, task_run = i\<rparr>) xs)"
  by (induction xs arbitrary: ts) (simp_all add: spawn_step_def)

lemma spawn_loop_generated:
  assumes "gid = PNone \<or> gid = PStr ''auto''" and "gen k \<noteq> ''auto''"
  shows "foldl (spawn_step gen) (gid, k, ts) (x # xs) =
     (PStr (gen k), Suc k, ts @ map (\<lambda>i. \<lparr>task_group = PStr (gen k), task_run = i\<rparr>) (x # xs))"
proof -
  have "spawn_step gen (gid, k, ts) x =
      (PStr (gen k), Suc k, ts @ [\<lparr>task_group = PStr (gen k), task_run = x\<rparr>])"
    using assms(1) by (auto simp add: spawn_step_def)
  then show ?thesis
    using assms(2) spawn_loop_literal [of "PStr (gen k)" gen "Suc k"]
    by simp
qed

lemma int_or_default_total: "\<exists>i. int_or_default parse d v = Inr i"
  by (cases v) (auto simp add: int_or_default_def split: option.splits)

text \<open>
  Claim C7.  In a simple batch whose \<open>group-by\<close> is absent or \<open>auto\<close>, every task submitted
  carries the id generated first, and the generator is called once as soon as the batch
  has a run (never again), provided that id is not the sentinel \<open>auto\<close> itself; with any
  other \<open>group-by\<close> every task carries that value unchanged and nothing is generated.  The
  batch is submitted whenever no \<open>parallel\<close> setting is given.
\<close>

theorem group_id_shared:
  "(perform_single_experiment parse gen rc = Inr (tasks, k) \<longrightarrow>
      (dict_get rc ''group-by'' = PNone \<or> dict_get rc ''group-by'' = PStr ''auto'' \<longrightarrow>
       gen 0 \<noteq> ''auto'' \<longrightarrow>
         (\<forall>t\<in>set tasks. task_group t = PStr (gen 0)) \<and> k = (if tasks = [] then 0 else 1))
    \<and> (dict_get rc ''group-by'' \<noteq> PNone \<and> dict_get rc ''group-by'' \<noteq> PStr ''auto'' \<longrightarrow>
         (\<forall>t\<in>set tasks. task_group t = dict_get rc ''group-by'') \<and> k = 0))
   \<and> (rc ''parallel'' = None \<longrightarrow> (\<exists>tasks k. perform_single_experiment parse gen rc = Inr (tasks, k)))"
proof -
  obtain runs where runs: "int_or_default parse 1 (dict_get rc ''num-runs-limit'') = Inr runs"
    using int_or_default_total by blast
  obtain start where start: "int_or_default parse 0 (dict_get rc ''num-runs-start'') = Inr start"
    using int_or_default_total by blast
  let ?gid = "dict_get rc ''group-by''"
  let ?xs = "[start..runs - 1]"
  have total: "\<exists>tasks k. perform_single_experiment parse gen rc = Inr (tasks, k)"
    if "rc ''parallel'' = None"
    using that by (simp add: perform_single_experiment_def runs start split: prod.splits)
  have res: "foldl (spawn_step gen) (?gid, 0, []) ?xs = (g, k, tasks)"
    if "perform_single_experiment parse gen rc = Inr (tasks, k)"
       "g = fst (foldl (spawn_step gen) (?gid, 0, []) ?xs)" for g
    using that
    by (auto simp add: perform_single_experiment_def runs start
        split: prod.splits option.splits sum.splits if_splits)
  have lit: "(\<forall>t\<in>set tasks. task_group t = ?gid) \<and> k = 0"
    if "perform_single_experiment parse gen rc = Inr (tasks, k)"
       "?gid \<noteq> PNone" "?gid \<noteq> PStr ''auto''"
    using res [OF that(1) refl] spawn_loop_literal [OF that(2,3), of gen 0 "[]" ?xs]
    by auto
  have gen: "(\<forall>t\<in>set tasks. task_group t = PStr (gen 0)) \<and> k = (if tasks = [] then 0 else 1)"
    if "perform_single_experiment parse gen rc = Inr (tasks, k)"
       "?gid = PNone \<or> ?gid = PStr ''auto''" "gen 0 \<noteq> ''auto''"
  proof (cases ?xs)
    case Nil
    then show ?thesis using res [OF that(1) refl] by simp
  next
    case (Cons x xs)
    then show ?thesis
      using res [OF that(1) refl] spawn_loop_generated [where gid = ?gid and gen = gen and k = 0 and ts = "[]"
          and x = x and xs = xs, OF that(2,3)]
      by auto
  qed
  show ?thesis
    using total lit gen by blast
qed

theorem group_id_shared_witness:
  "perform_single_experiment (\<lambda>s. None) (\<lambda>n. if n = 0 then ''k3x9q2ab'' else ''zzzzzzzz'')
     [''group-by'' \<mapsto> PStr ''auto'', ''num-runs-limit'' \<mapsto> PInt 3] =
     Inr ([\<lparr>task_group = PStr ''k3x9q2ab'', task_run = 0\<rparr>,
           \<lparr>task_group = PStr ''k3x9q2ab'', task_run = 1\<rparr>,
           \<lparr>task_group = PStr ''k3x9q2ab'', task_run = 2\<rparr>], 1)
   \<and> perform_single_experiment (\<lambda>s. None) (\<lambda>n. if n = 0 then ''k3x9q2ab'' else ''zzzzzzzz'')
     [''group-by'' \<mapsto> PStr ''trial-7'', ''num-runs-limit'' \<mapsto> PInt 2] =
     Inr ([\<lparr>task_group = PStr ''trial-7'', task_run = 0\<rparr>,
           \<lparr>task_group = PStr ''trial-7'', task_run = 1\<rparr>], 0)"
proof -
  have u: "[0..2] = [0, 1, 2::int]" "[0..1] = [0, 1::int]" by code_simp+
  have a: "perform_single_experiment (\<lambda>s. None) (\<lambda>n. if n = 0 then ''k3x9q2ab'' else ''zzzzzzzz'')
     [''group-by'' \<mapsto> PStr ''auto'', ''num-runs-limit'' \<mapsto> PInt 3] =
     Inr ([\<lparr>task_group = PStr ''k3x9q2ab'', task_run = 0\<rparr>,
           \<lparr>task_group = PStr ''k3x9q2ab'', task_run = 1\<rparr>,
           \<lparr>task_group = PStr ''k3x9q2ab'', task_run = 2\<rparr>], 1)"
    by (simp add: perform_single_experiment_def dict_get_def int_or_default_def u spawn_step_def
        Let_def)
  have b: "perform_single_experiment (\<lambda>s. None) (\<lambda>n. if n = 0 then ''k3x9q2ab'' else ''zzzzzzzz'')
     [''group-by'' \<mapsto> PStr ''trial-7'', ''num-runs-limit'' \<mapsto> PInt 2] =
     Inr ([\<lparr>task_group = PStr ''trial-7'', task_run = 0\<rparr>,
           \<lparr>task_group = PStr ''trial-7'', task_run = 1\<rparr>], 0)"
    by (simp add: perform_single_experiment_def dict_get_def int_or_default_def u spawn_step_def
        Let_def)
  show ?thesis
    using a b
      group_id_shared [of "\<lambda>s. None" "\<lambda>n. if n = 0 then ''k3x9q2ab'' else ''zzzzzzzz''"
        "[''group-by'' \<mapsto> PStr ''auto'', ''num-runs-limit'' \<mapsto> PInt 3]"
        "[\<lparr>task_group = PStr ''k3x9q2ab'', task_run = 0\<rparr>,
          \<lparr>task_group = PStr ''k3x9q2ab'', task_run = 1\<rparr>,
          \<lparr>task_group = PStr ''k3x9q2ab'', task_run = 2\<rparr>]" 1]
      group_id_shared [of "\<lambda>s. None" "\<lambda>n. if n = 0 then ''k3x9q2ab'' else ''zzzzzzzz''"
        "[''group-by'' \<mapsto> PStr ''trial-7'', ''num-runs-limit'' \<mapsto> PInt 2]"
        "[\<lparr>task_group = PStr ''trial-7'', task_run = 0\<rparr>,
          \<lparr>task_group = PStr ''trial-7'', task_run = 1\<rparr>]" 0]
    by simp
qed

lemma lookup_category_None: "lookup_category table None = (None, Map.empty)"
  by (simp add: lookup_category_def)

lemma lookup_category_Some:
  "lookup_category table (Some sec) =
     (table (spec_method_name (Some sec)),
      (case cat_args sec of None \<Rightarrow> Map.empty | Some a \<Rightarrow> a))"
  by (simp add: lookup_category_def spec_method_name_def)

lemma main_no_parsing:
  "parsing conf = None \<Longrightarrow>
   main conf sweep_path = Inl (NotImplementedError ''Metric parsing function not found'')"
  by (simp add: main_def)

lemma main_missing_category:
  assumes "parsing conf = Some pc"
    and "ps_metrics pc = None \<or> ps_logfile pc = None \<or> ps_artifacts pc = None"
  shows "\<exists>msg. main conf sweep_path = Inl (NotImplementedError msg)"
proof (cases "ps_metrics pc")
  case None
  then show ?thesis using assms(1) by (simp add: main_def lookup_category_None)
next
  case m: (Some m)
  show ?thesis
  proof (cases "metric_dict (spec_method_name (Some m))")
    case None
    then show ?thesis using assms(1) m by (simp add: main_def lookup_category_Some)
  next
    case mf: (Some mfn)
    show ?thesis
    proof (cases "ps_logfile pc")
      case None
      then show ?thesis
        using assms(1) m mf by (simp add: main_def lookup_category_Some lookup_category_None)
    next
      case lg: (Some lg)
      show ?thesis
      proof (cases "logfile_dict (spec_method_name (Some lg))")
        case None
        then show ?thesis
          using assms(1) m mf lg by (simp add: main_def lookup_category_Some)
      next
        case lf: (Some lfn)
        have "ps_artifacts pc = None" using assms(2) m lg by simp
        then show ?thesis
          using assms(1) m mf lg lf
          by (simp add: main_def lookup_category_Some lookup_category_None)
      qed
    qed
  qed
qed

text \<open>
  Claim C6, as the code has it.  When \<open>parsing-setup\<close> or the section of one of the three
  categories is absent, \<open>main\<close> raises before it launches anything.  When all three sections
  are present, each method name, \<open>default\<close> when the section names none, is looked up in
  its table; the first name missing from its table (metrics, logfile, artifacts) raises
  before anything is launched, and otherwise the launch receives the three routines found.
\<close>

theorem main_resolves_methods:
  "((parsing conf = None
      \<or> (\<exists>pc. parsing conf = Some pc
            \<and> (ps_metrics pc = None \<or> ps_logfile pc = None \<or> ps_artifacts pc = None)))
     \<longrightarrow> (\<exists>msg. main conf sweep_path = Inl (NotImplementedError msg)))
   \<and> (parsing conf = Some pc \<and> ps_metrics pc = Some m \<and> ps_logfile pc = Some lg
        \<and> ps_artifacts pc = Some ar \<longrightarrow>
        main conf sweep_path =
          (case metric_dict (spec_method_name (Some m)) of
             None \<Rightarrow> Inl (NotImplementedError ''Metric parsing function not found'')
           | Some mfn \<Rightarrow>
          (case logfile_dict (spec_method_name (Some lg)) of
             None \<Rightarrow> Inl (NotImplementedError ''Logfile parsing function not found'')
           | Some lfn \<Rightarrow>
          (case artifact_dict (spec_method_name (Some ar)) of
             None \<Rightarrow> Inl (NotImplementedError ''Artifacts parsing function not found'')
           | Some afn \<Rightarrow>
               (let r = \<lparr>metric_fn = mfn,
                         metric_args = (case cat_args m of None \<Rightarrow> Map.empty | Some a \<Rightarrow> a),
                         logfile_fn' = lfn,
                         logfile_args' = (case cat_args lg of None \<Rightarrow> Map.empty | Some a \<Rightarrow> a),
                         artifact_fn = afn,
                         artifact_args = (case cat_args ar of None \<Rightarrow> Map.empty | Some a \<Rightarrow> a)\<rparr>
                in case sweep_path of
                     Some p \<Rightarrow> Inr (PerformSweep p r)
                   | None \<Rightarrow>
                       Inr (PerformSingle
                              (case run_setup conf of None \<Rightarrow> Map.empty | Some rs \<Rightarrow> rs) r))))))"
proof (intro conjI impI)
  assume "parsing conf = None
      \<or> (\<exists>pc. parsing conf = Some pc
            \<and> (ps_metrics pc = None \<or> ps_logfile pc = None \<or> ps_artifacts pc = None))"
  then show "\<exists>msg. main conf sweep_path = Inl (NotImplementedError msg)"
    using main_no_parsing main_missing_category by blast
next
  assume "parsing conf = Some pc \<and> ps_metrics pc = Some m \<and> ps_logfile pc = Some lg
        \<and> ps_artifacts pc = Some ar"
  then show "main conf sweep_path =
          (case metric_dict (spec_method_name (Some m)) of
             None \<Rightarrow> Inl (NotImplementedError ''Metric parsing function not found'')
           | Some mfn \<Rightarrow>
          (case logfile_dict (spec_method_name (Some lg)) of
             None \<Rightarrow> Inl (NotImplementedError ''Logfile parsing function not found'')
           | Some lfn \<Rightarrow>
          (case artifact_dict (spec_method_name (Some ar)) of
             None \<Rightarrow> Inl (NotImplementedError ''Artifacts parsing function not found'')
           | Some afn \<Rightarrow>
               (let r = \<lparr>metric_fn = mfn,
                         metric_args = (case cat_args m of None \<Rightarrow> Map.empty | Some a \<Rightarrow> a),
                         logfile_fn' = lfn,
                         logfile_args' = (case cat_args lg of None \<Rightarrow> Map.empty | Some a \<Rightarrow> a),
                         artifact_fn = afn,
                         artifact_args = (case cat_args ar of None \<Rightarrow> Map.empty | Some a \<Rightarrow> a)\<rparr>
                in case sweep_path of
                     Some p \<Rightarrow> Inr (PerformSweep p r)
                   | None \<Rightarrow>
                       Inr (PerformSingle
                              (case run_setup conf of None \<Rightarrow> Map.empty | Some rs \<Rightarrow> rs) r)))))"
    by (simp add: main_def lookup_category_Some)
qed

theorem main_resolves_methods_witness:
  "main \<lparr>parsing = Some \<lparr>ps_metrics = Some \<lparr>cat_method = None,
              cat_args = Some [''lineseries'' \<mapsto> PBool True]\<rparr>,
            ps_logfile = Some \<lparr>cat_method = Some ''default'', cat_args = None\<rparr>,
            ps_artifacts = Some \<lparr>cat_method = Some ''default'', cat_args = None\<rparr>\<rparr>,
         run_setup = None\<rparr> None =
     Inr (PerformSingle Map.empty
            \<lparr>metric_fn = DefaultParseMetrics, metric_args = [''lineseries'' \<mapsto> PBool True],
             logfile_fn' = DefaultParseLogfile, logfile_args' = Map.empty,
             artifact_fn = DefaultParseArtifacts, artifact_args = Map.empty\<rparr>)
   \<and> main \<lparr>parsing = Some \<lparr>ps_metrics = Some \<lparr>cat_method = Some ''custom'', cat_args = None\<rparr>,
            ps_logfile = Some \<lparr>cat_method = Some ''default'', cat_args = None\<rparr>,
            ps_artifacts = Some \<lparr>cat_method = Some ''default'', cat_args = None\<rparr>\<rparr>,
         run_setup = None\<rparr> None =
     Inl (NotImplementedError ''Metric parsing function not found'')
   \<and> (\<exists>msg. main \<lparr>parsing = Some \<lparr>ps_metrics = Some \<lparr>cat_method = None, cat_args = None\<rparr>,
            ps_logfile = None,
            ps_artifacts = Some \<lparr>cat_method = Some ''default'', cat_args = None\<rparr>\<rparr>,
         run_setup = None\<rparr> None = Inl (NotImplementedError msg))"
  using main_resolves_methods
      [where conf = "\<lparr>parsing = Some \<lparr>ps_metrics = Some \<lparr>cat_method = None,
              cat_args = Some [''lineseries'' \<mapsto> PBool True]\<rparr>,
            ps_logfile = Some \<lparr>cat_method = Some ''default'', cat_args = None\<rparr>,
            ps_artifacts = Some \<lparr>cat_method = Some ''default'', cat_args = None\<rparr>\<rparr>,
         run_setup = None\<rparr>" and sweep_path = None
        and pc = "\<lparr>ps_metrics = Some \<lparr>cat_method = None,
              cat_args = Some [''lineseries'' \<mapsto> PBool True]\<rparr>,
            ps_logfile = Some \<lparr>cat_method = Some ''default'', cat_args = None\<rparr>,
            ps_artifacts = Some \<lparr>cat_method = Some ''default'', cat_args = None\<rparr>\<rparr>"
        and m = "\<lparr>cat_method = None, cat_args = Some [''lineseries'' \<mapsto> PBool True]\<rparr>"
        and lg = "\<lparr>cat_method = Some ''default'', cat_args = None\<rparr>"
        and ar = "\<lparr>cat_method = Some ''default'', cat_args = None\<rparr>"]
    main_resolves_methods
      [where conf = "\<lparr>parsing = Some \<lparr>ps_metrics = Some \<lparr>cat_method = Some ''custom'', cat_args = None\<rparr>,
            ps_logfile = Some \<lparr>cat_method = Some ''default'', cat_args = None\<rparr>,
            ps_artifacts = Some \<lparr>cat_method = Some ''default'', cat_args = None\<rparr>\<rparr>,
         run_setup = None\<rparr>" and sweep_path = None
        and pc = "\<lparr>ps_metrics = Some \<lparr>cat_method = Some ''custom'', cat_args = None\<rparr>,
            ps_logfile = Some \<lparr>cat_method = Some ''default'', cat_args = None\<rparr>,
            ps_artifacts = Some \<lparr>cat_method = Some ''default'', cat_args = None\<rparr>\<rparr>"
        and m = "\<lparr>cat_method = Some ''custom'', cat_args = None\<rparr>"
        and lg = "\<lparr>cat_method = Some ''default'', cat_args = None\<rparr>"
        and ar = "\<lparr>cat_method = Some ''default'', cat_args = None\<rparr>"]
    main_resolves_methods
      [where conf = "\<lparr>parsing = Some \<lparr>ps_metrics = Some \<lparr>cat_method = None, cat_args = None\<rparr>,
            ps_logfile = None,
            ps_artifacts = Some \<lparr>cat_method = Some ''default'', cat_args = None\<rparr>\<rparr>,
         run_setup = None\<rparr>" and sweep_path = None, THEN conjunct1]
  by (simp add: spec_method_name_def metric_dict_def logfile_dict_def artifact_dict_def)

text \<open>
  Without a \<open>parsing-setup\<close> section no method is configured and \<open>default\<close> is in all
  three tables, yet \<open>main\<close> raises: the default is not applied there.
\<close>

theorem main_absent_section_counterexample:
  "metric_dict (spec_method_name None) = Some DefaultParseMetrics
   \<and> logfile_dict (spec_method_name None) = Some DefaultParseLogfile
   \<and> artifact_dict (spec_method_name None) = Some DefaultParseArtifacts
   \<and> main \<lparr>parsing = None, run_setup = None\<rparr> None =
       Inl (NotImplementedError ''Metric parsing function not found'')"
  by (simp add: spec_method_name_def metric_dict_def logfile_dict_def artifact_dict_def main_def)

end
